theory Spec2Isabelle
  imports Main "HOL-Library.Word"
begin

section \<open>JavaScript strings\<close>

text \<open>
  A JavaScript string is a sequence of UTF-16 code units; \<open>length\<close>, \<open>slice\<close>,
  \<open>substring\<close> and the regular expressions of the source (none has the \<open>u\<close> flag)
  all count code units. Literals of the source outside Basic Latin are written by their
  code units; \<open>asc\<close> embeds a Basic Latin literal.
\<close>

type_synonym jsstring = "16 word list"

definition asc :: "string \<Rightarrow> jsstring" where
  "asc s = map of_char s"

text \<open>
  The code units matched by \<open>\s\<close> and removed by \<open>trim()\<close>: the WhiteSpace and
  LineTerminator productions of ECMAScript.
\<close>

definition isSpace :: "16 word \<Rightarrow> bool" where
  "isSpace c = (c \<in> {0x09, 0x0A, 0x0B, 0x0C, 0x0D, 0x20, 0xA0, 0x1680, 0x2028, 0x2029,
                      0x202F, 0x205F, 0x3000, 0xFEFF} \<or> (0x2000 \<le> c \<and> c \<le> 0x200A))"

definition trim :: "jsstring \<Rightarrow> jsstring" where
  "trim s = rev (dropWhile isSpace (rev (dropWhile isSpace s)))"

text \<open>
  \<open>s.slice(0, n)\<close> is \<open>take n s\<close>. \<open>s.substring(a, b)\<close> clamps both indices to
  \<open>0 .. length s\<close> and swaps them when they are out of order.
\<close>

definition substring :: "jsstring \<Rightarrow> int \<Rightarrow> int \<Rightarrow> jsstring" where
  "substring s a b =
     (let n = int (length s);
          a' = min (max a 0) n;
          b' = min (max b 0) n;
          lo = min a' b';
          hi = max a' b'
      in take (nat (hi - lo)) (drop (nat lo) s))"

fun startsWith :: "jsstring \<Rightarrow> jsstring \<Rightarrow> bool" where
  "startsWith s [] = True"
| "startsWith [] (c # p) = False"
| "startsWith (d # s) (c # p) = (d = c \<and> startsWith s p)"

fun js_includes :: "jsstring \<Rightarrow> jsstring \<Rightarrow> bool" where
  "js_includes [] p = startsWith [] p"
| "js_includes (d # s) p = (startsWith (d # s) p \<or> js_includes s p)"

fun join :: "jsstring \<Rightarrow> jsstring list \<Rightarrow> jsstring" where
  "join sep [] = []"
| "join sep [x] = x"
| "join sep (x # y # r) = x @ sep @ join sep (y # r)"

text \<open>
  Truthiness of an optional string (\<open>undefined\<close> and \<open>""\<close> are falsy), the operator
  \<open>||\<close> on optional strings, and \<open>x || undefined\<close>.
\<close>

definition truthy :: "jsstring option \<Rightarrow> bool" where
  "truthy x = (case x of None \<Rightarrow> False | Some s \<Rightarrow> s \<noteq> [])"

definition truthyNum :: "int option \<Rightarrow> bool" where
  "truthyNum x = (case x of None \<Rightarrow> False | Some i \<Rightarrow> i \<noteq> 0)"

definition js_or :: "jsstring option \<Rightarrow> jsstring option \<Rightarrow> jsstring option" where
  "js_or x y = (if truthy x then x else y)"

definition orUndefined :: "jsstring option \<Rightarrow> jsstring option" where
  "orUndefined x = (if truthy x then x else None)"

definition orEmpty :: "jsstring option \<Rightarrow> jsstring" where
  "orEmpty x = (case x of None \<Rightarrow> [] | Some s \<Rightarrow> s)"

subsection \<open>\<open>split\<close>\<close>

text \<open>
  \<open>String.prototype.split\<close> with a separator that is a string or a regular expression
  without capture groups. The separator is given as its matcher: \<open>m r\<close> is the length of
  the match that starts at the beginning of \<open>r\<close>, if there is one. In \<open>split_loop m cur r\<close>
  the piece read since the last separator is \<open>cur\<close> and the unread input is \<open>r\<close>; an
  empty match at the start of a piece does not split, as in the standard's loop.
\<close>

function split_loop :: "(jsstring \<Rightarrow> nat option) \<Rightarrow> jsstring \<Rightarrow> jsstring \<Rightarrow> jsstring list" where
  "split_loop m cur [] = [cur]"
| "split_loop m cur (c # cs) =
     (case m (c # cs) of
        None \<Rightarrow> split_loop m (cur @ [c]) cs
      | Some n \<Rightarrow>
          if n = 0 \<and> cur = [] then split_loop m (cur @ [c]) cs
          else cur # split_loop m [] (drop n (c # cs)))"
  by pat_completeness auto
termination
  by (relation "measure (\<lambda>(m, cur, r). 2 * length r + (if cur = [] then 0 else 1))") auto

definition js_split :: "(jsstring \<Rightarrow> nat option) \<Rightarrow> jsstring \<Rightarrow> jsstring list" where
  "js_split m s = (if s = [] then (if m [] \<noteq> None then [] else [[]]) else split_loop m [] s)"

text \<open>A string separator matches where the input continues with it.\<close>

definition strSeparator :: "jsstring \<Rightarrow> jsstring \<Rightarrow> nat option" where
  "strSeparator sep s = (if take (length sep) s = sep then Some (length sep) else None)"

section \<open>Tags\<close>

text \<open>
  The separator of \<open>splitTags\<close> is the regular expression
  \<^verbatim>\<open>/[,\u060C\n]+|\s*\u0648\s*|\s*and\s*/i\<close> (the source writes the two Arabic
  characters literally: U+060C is the Arabic comma, U+0648 the letter that spells
  the word for "and"). Its alternatives are tried in order. The first takes the longest run of ASCII comma,
  Arabic comma and line feed. The other two are a word between two greedy \<open>\s*\<close>: the
  word's first unit is not white space, so giving back white space never helps, and the
  match is the whole white-space run, the word, and the whole run after it. With the
  \<open>i\<close> flag a pattern unit matches every unit with the same canonical form: \<open>a\<close>, \<open>n\<close>,
  \<open>d\<close> match their capitals, the Arabic letter and the commas only themselves.
\<close>

definition isTagComma :: "16 word \<Rightarrow> bool" where
  "isTagComma c = (c = 0x2C \<or> c = 0x060C \<or> c = 0x0A)"

definition wordSeparator :: "(16 word \<Rightarrow> bool) list \<Rightarrow> jsstring \<Rightarrow> nat option" where
  "wordSeparator w s =
     (let a = takeWhile isSpace s;
          r = dropWhile isSpace s
      in if length w \<le> length r \<and> list_all2 (\<lambda>P c. P c) w (take (length w) r)
         then Some (length a + length w + length (takeWhile isSpace (drop (length w) r)))
         else None)"

definition tagSeparator :: "jsstring \<Rightarrow> nat option" where
  "tagSeparator s =
     (let n = length (takeWhile isTagComma s)
      in if 0 < n then Some n
         else case wordSeparator [\<lambda>c. c = 0x0648] s of
                Some k \<Rightarrow> Some k
              | None \<Rightarrow> wordSeparator [\<lambda>c. c = 0x61 \<or> c = 0x41, \<lambda>c. c = 0x6E \<or> c = 0x4E,
                                       \<lambda>c. c = 0x64 \<or> c = 0x44] s)"

text \<open>\<^verbatim>\<open>t.replace(/^#/, "")\<close>: one leading number sign is removed.\<close>

definition stripHash :: "jsstring \<Rightarrow> jsstring" where
  "stripHash t = (case t of [] \<Rightarrow> [] | c # r \<Rightarrow> if c = 0x23 then r else t)"

definition splitTags :: "jsstring \<Rightarrow> jsstring list" where
  "splitTags s =
     (if s = [] then []
      else map stripHash (filter (\<lambda>t. 0 < length t) (map trim (js_split tagSeparator s))))"

definition parseTags :: "jsstring \<Rightarrow> jsstring list" where
  "parseTags input =
     take 30 (map stripHash (filter (\<lambda>s. 0 < length s)
       (map trim (js_split (strSeparator [0x2C]) input))))"

text \<open>The middle of both tag functions: trim every piece and drop the empty ones.\<close>

definition keptPieces :: "jsstring list \<Rightarrow> jsstring list" where
  "keptPieces xs = filter (\<lambda>t. 0 < length t) (map trim xs)"

definition limit :: "jsstring \<Rightarrow> nat \<Rightarrow> jsstring" where
  "limit s n = (if n < length s then take n s else s)"

text \<open>
  The example of the tag prompt, three tags separated by a comma and by the word
  U+0648 between spaces: U+0622 U+0645 U+0648 U+0632 U+0634, then
  U+0628 U+0631 U+0646 U+0627 U+0645 U+0647 U+0020 U+0646 U+0648 U+06CC U+0633 U+06CC, then
  U+062C U+0627 U+0648 U+0627 U+0627 U+0633 U+06A9 U+0631 U+06CC U+067E U+062A.
\<close>

definition tag_example :: jsstring where
  "tag_example =
     [0x622, 0x645, 0x648, 0x632, 0x634, 0x2C, 0x20,
      0x628, 0x631, 0x646, 0x627, 0x645, 0x647, 0x20, 0x646, 0x648, 0x6CC, 0x633, 0x6CC,
      0x20, 0x648, 0x20,
      0x62C, 0x627, 0x648, 0x627, 0x627, 0x633, 0x6A9, 0x631, 0x6CC, 0x67E, 0x62A]"

definition tag_example_expected :: "jsstring list" where
  "tag_example_expected =
     [[0x622, 0x645, 0x648, 0x632, 0x634],
      [0x628, 0x631, 0x646, 0x627, 0x645, 0x647, 0x20, 0x646, 0x648, 0x6CC, 0x633, 0x6CC],
      [0x62C, 0x627, 0x648, 0x627, 0x627, 0x633, 0x6A9, 0x631, 0x6CC, 0x67E, 0x62A]]"

text \<open>
  Inputs on which only the ASCII comma can separate: no Arabic comma, no line feed, no
  letter U+0648, and no \<open>and\<close> in any capitalisation.
\<close>

fun hasAnd :: "jsstring \<Rightarrow> bool" where
  "hasAnd (a # b # c # r) =
     (((a = 0x61 \<or> a = 0x41) \<and> (b = 0x6E \<or> b = 0x4E) \<and> (c = 0x64 \<or> c = 0x44))
      \<or> hasAnd (b # c # r))"
| "hasAnd r = False"

definition commaOnly :: "jsstring \<Rightarrow> bool" where
  "commaOnly s = (0x060C \<notin> set s \<and> 0x0A \<notin> set s \<and> 0x0648 \<notin> set s \<and> \<not> hasAnd s)"

section \<open>Messages, conversation state and collaborators\<close>

text \<open>
  The messaging platform's types, with the fields the processor reads. Identifiers and
  offsets are JavaScript numbers holding integers.
\<close>

record TgUser =
  user_id :: int
  username :: "jsstring option"
  first_name :: "jsstring option"
  last_name :: "jsstring option"
  language_code :: "jsstring option"

record TgChat =
  chat_id :: int
  chat_type :: jsstring

record TgVideo =
  vid_file_id :: jsstring

record TgDocument =
  doc_file_id :: jsstring
  doc_mime_type :: "jsstring option"

record TgMessageEntity =
  ent_offset :: int
  ent_length :: int
  ent_type :: jsstring
  ent_user :: "TgUser option"

datatype TgMessage = TgMessage
  (message_id: int)
  (from_user: "TgUser option")
  (chat: TgChat)
  (date: int)
  (text_of: "jsstring option")
  (video: "TgVideo option")
  (document: "TgDocument option")
  (entities: "TgMessageEntity list option")
  (caption: "jsstring option")
  (caption_entities: "TgMessageEntity list option")
  (reply_to_message: "TgMessage option")

record TgUpdate =
  update_id :: int
  message :: "TgMessage option"

text \<open>
  \<open>WizardStep\<close> has five values in the source; a stored state is read back unchecked
  (\<open>JSON.parse(json) as ChatState\<close>), and the \<open>default\<close> branch of the switch handles any
  other value, here \<open>other_step\<close>.
\<close>

datatype WizardStep =
  awaiting_video | awaiting_title | awaiting_description | awaiting_tags | awaiting_confirm
  | other_step

record ChatState =
  chatId :: int
  step :: WizardStep
  video_file_id :: "jsstring option"
  title :: "jsstring option"
  description :: "jsstring option"
  tags :: "jsstring list option"
  updatedAt :: int

record PayloadVideo =
  pv_file_id :: jsstring
  pv_file_path :: "jsstring option"
  pv_file_size :: "int option"

record N8nVideoPayload =
  p_chat_id :: int
  p_from :: "TgUser option"
  p_message_id :: int
  p_date :: int
  p_video :: PayloadVideo
  p_title :: jsstring
  p_description :: jsstring
  p_tags :: "jsstring list"
  p_source_link :: "jsstring option"
  p_channel :: "jsstring option"

text \<open>What the collaborators answer: \<open>getMe\<close>, \<open>getFile\<close>, and the workflow's response
  (\<open>resp_body\<close> is \<open>None\<close> when reading the body fails, as in \<open>safeReadText\<close>).\<close>

record MeResult =
  me_id :: "int option"
  me_username :: "jsstring option"

record FileResult =
  file_path :: "jsstring option"
  file_size :: "int option"

record FileCheck =
  fc_ok :: bool
  fc_result :: "FileResult option"
  fc_description :: "jsstring option"

record Response =
  resp_ok :: bool
  resp_status :: int
  resp_body :: "jsstring option"

text \<open>
  The surroundings of one call of \<open>handleUpdate\<close>: the answers of the messaging client
  and of the workflow client, the clock, and three functions of the JavaScript runtime
  that are taken as they are: \<open>String.prototype.toLowerCase\<close>, the canonical form of a
  code unit under the \<open>i\<close> flag of a regular expression, and whether \<open>new URL(s)\<close>
  succeeds.
\<close>

record env =
  toLowerCase :: "jsstring \<Rightarrow> jsstring"
  canonicalize :: "16 word \<Rightarrow> 16 word"
  isUrl :: "jsstring \<Rightarrow> bool"
  getMe :: MeResult
  getFile :: "jsstring \<Rightarrow> FileCheck"
  sendVideo :: "N8nVideoPayload \<Rightarrow> Response"
  now :: int

text \<open>
  The texts the processor sends are fixed literals, named here by the place that sends
  them; the computed parts are arguments: the reported description of a rejected file
  (\<open>None\<close> for the literal default), the status and the body cut to 400 units of a failed
  dispatch, and the three lines of the confirmation summary.
\<close>

datatype reply =
    MsgNeedReplyForSourceLink
  | MsgNeedVideo
  | MsgFileError "jsstring option"
  | MsgEmptyFileId
  | MsgGroupSuccess
  | MsgN8nError int jsstring
  | MsgGuidance
  | MsgUnreadable
  | MsgWelcome
  | MsgCancelled
  | MsgAskTitle
  | MsgStartFirst
  | MsgVideoRequired
  | MsgAskDescription
  | MsgTitleInvalid
  | MsgAskTags
  | MsgDescriptionInvalid
  | MsgNoTags
  | MsgConfirm jsstring jsstring jsstring
  | MsgTagsInvalid
  | MsgIncomplete
  | MsgWizardSuccess
  | MsgConfirmCancelled
  | MsgConfirmReminder
  | MsgUnknownState

text \<open>The calls the processor makes on its collaborators, in order.\<close>

datatype effect =
    SendMessage int reply "int option"
  | SendChatAction int jsstring
  | GetMe
  | GetFile jsstring
  | SendVideo N8nVideoPayload
  | RepoGet int
  | RepoSave ChatState
  | RepoDelete int

text \<open>
  The processor's state: the state store it was given (\<open>KvChatStateRepository\<close> keeps one
  entry per conversation id), the cached bot identity, and the calls made so far.
\<close>

record processor =
  repo :: "int \<Rightarrow> ChatState option"
  botUsername :: "jsstring option"
  botId :: "int option"
  trace :: "effect list"

definition emit :: "effect \<Rightarrow> processor \<Rightarrow> processor" where
  "emit e p = p\<lparr>trace := trace p @ [e]\<rparr>"

definition sendMessage :: "int \<Rightarrow> reply \<Rightarrow> int option \<Rightarrow> processor \<Rightarrow> processor" where
  "sendMessage cid r replyTo p = emit (SendMessage cid r replyTo) p"

definition sendChatAction :: "int \<Rightarrow> jsstring \<Rightarrow> processor \<Rightarrow> processor" where
  "sendChatAction cid a p = emit (SendChatAction cid a) p"

definition repo_save :: "ChatState \<Rightarrow> processor \<Rightarrow> processor" where
  "repo_save s p = emit (RepoSave s) (p\<lparr>repo := (repo p)(chatId s \<mapsto> s)\<rparr>)"

definition repo_delete :: "int \<Rightarrow> processor \<Rightarrow> processor" where
  "repo_delete cid p = emit (RepoDelete cid) (p\<lparr>repo := (repo p)(cid := None)\<rparr>)"

definition ensureBotIdentity :: "env \<Rightarrow> processor \<Rightarrow> processor" where
  "ensureBotIdentity w p =
     (if truthy (botUsername p) \<and> truthyNum (botId p) then p
      else (emit GetMe p)\<lparr>botUsername := orUndefined (me_username (getMe w)),
                          botId := (if truthyNum (me_id (getMe w)) then me_id (getMe w) else None)\<rparr>)"

section \<open>Mention detection\<close>

text \<open>
  The loop of \<open>isMentioned\<close> over the entities: an entity answers \<open>true\<close> when it is a
  \<open>text_mention\<close> of the bot's id, or a \<open>mention\<close> whose covered text is the handle up
  to case; otherwise the loop goes on.
\<close>

fun entitiesMention ::
  "env \<Rightarrow> jsstring \<Rightarrow> jsstring option \<Rightarrow> int option \<Rightarrow> TgMessageEntity list \<Rightarrow> bool" where
  "entitiesMention w txt bu bi [] = False"
| "entitiesMention w txt bu bi (e # es) =
     (if ent_type e = asc ''text_mention'' \<and> truthyNum (map_option user_id (ent_user e))
         \<and> truthyNum bi \<and> map_option user_id (ent_user e) = bi
      then True
      else if ent_type e = asc ''mention'' \<and> truthy bu \<and> txt \<noteq> []
              \<and> toLowerCase w (substring txt (ent_offset e) (ent_offset e + ent_length e))
                  = toLowerCase w (0x40 # orEmpty bu)
      then True
      else entitiesMention w txt bu bi es)"

text \<open>
  \<open>(msg.entities || []).concat(msg.caption_entities || [])\<close> and
  \<open>msg.text || msg.caption || ""\<close>.
\<close>

definition entitiesOf :: "TgMessage \<Rightarrow> TgMessageEntity list" where
  "entitiesOf msg =
     (case entities msg of None \<Rightarrow> [] | Some es \<Rightarrow> es)
     @ (case caption_entities msg of None \<Rightarrow> [] | Some es \<Rightarrow> es)"

definition rawText :: "TgMessage \<Rightarrow> jsstring" where
  "rawText msg = orEmpty (js_or (js_or (text_of msg) (caption msg)) (Some []))"

definition isMentioned :: "env \<Rightarrow> TgMessage \<Rightarrow> jsstring option \<Rightarrow> int option \<Rightarrow> bool" where
  "isMentioned w msg bu bi =
     (if \<not> truthy bu \<and> \<not> truthyNum bi then False
      else
        let ents = entitiesOf msg;
            txt = rawText msg
        in if entitiesMention w txt bu bi ents then True
           else if truthy bu \<and> txt \<noteq> []
           then js_includes (toLowerCase w txt) (toLowerCase w (0x40 # orEmpty bu))
           else False)"

text \<open>
  The rule as the specification words it, for comparison: a \<open>mention\<close> entity whose covered
  text is the handle up to case, or a \<open>text_mention\<close> entity of the bot's id, or, only
  when the message carries no entity metadata, the handle as a substring up to case.
\<close>

definition mentionedAsSpecified ::
  "env \<Rightarrow> TgMessage \<Rightarrow> jsstring \<Rightarrow> int \<Rightarrow> bool" where
  "mentionedAsSpecified w msg handle bid =
     (list_ex (\<lambda>e. ent_type e = asc ''mention''
                   \<and> toLowerCase w (substring (rawText msg) (ent_offset e) (ent_offset e + ent_length e))
                       = toLowerCase w (0x40 # handle)) (entitiesOf msg)
      \<or> list_ex (\<lambda>e. ent_type e = asc ''text_mention''
                     \<and> map_option user_id (ent_user e) = Some bid) (entitiesOf msg)
      \<or> (entities msg = None \<and> caption_entities msg = None
          \<and> js_includes (toLowerCase w (rawText msg)) (toLowerCase w (0x40 # handle))))"

section \<open>The template parser\<close>

text \<open>
  \<open>text.replace(re, "")\<close> with \<open>re\<close> built from \<open>"@" + escapeRegExp(botUsername)\<close> and
  the flags \<open>ig\<close>: \<open>escapeRegExp\<close> makes every unit of the handle stand for itself, so the
  expression matches the units of \<open>pat\<close> one by one up to canonical form, and every
  match, found from left to right, is removed.
\<close>

fun removeMatches :: "(16 word \<Rightarrow> 16 word) \<Rightarrow> jsstring \<Rightarrow> jsstring \<Rightarrow> jsstring" where
  "removeMatches cf pat [] = []"
| "removeMatches cf pat (c # cs) =
     (if pat \<noteq> [] \<and> length pat \<le> length (c # cs)
         \<and> map cf (take (length pat) (c # cs)) = map cf pat
      then removeMatches cf pat (drop (length pat - 1) cs)
      else c # removeMatches cf pat cs)"

text \<open>The separator \<open>/\r?\n/\<close> of the lines.\<close>

fun lineBreak :: "jsstring \<Rightarrow> nat option" where
  "lineBreak (c # d # r) =
     (if c = 0x0D \<and> d = 0x0A then Some 2 else if c = 0x0A then Some 1 else None)"
| "lineBreak [c] = (if c = 0x0A then Some 1 else None)"
| "lineBreak [] = None"

datatype tplsection = SecNone | SecUpload | SecChannel | SecTitle | SecDesc | SecTags

text \<open>
  \<open>isHeader\<close> removes every colon (U+003A and the full-width U+FF1A), trims, and tests
  the rest against the anchored header words. The tags header is U+062A U+06AF, then
  white space of any length or one zero-width non-joiner U+200C or nothing, then
  U+0647 U+0627; or U+062A U+06AF alone.
\<close>

definition isTagsHeader :: "jsstring \<Rightarrow> bool" where
  "isTagsHeader t =
     (let r = drop 2 t;
          mid = take (length r - 2) r
      in take 2 t = [0x62A, 0x6AF] \<and> 2 \<le> length r \<and> drop (length r - 2) r = [0x647, 0x627]
         \<and> (list_all isSpace mid \<or> mid = [0x200C]))"

definition isHeader :: "jsstring \<Rightarrow> tplsection option" where
  "isHeader s =
     (let t = trim (filter (\<lambda>c. c \<noteq> 0x3A \<and> c \<noteq> 0xFF1A) s)
      in if t = [0x622, 0x67E, 0x644, 0x648, 0x62F] then Some SecUpload
         else if t = [0x6A9, 0x627, 0x646, 0x627, 0x644] then Some SecChannel
         else if t = [0x639, 0x646, 0x648, 0x627, 0x646] then Some SecTitle
         else if t = [0x62A, 0x648, 0x636, 0x6CC, 0x62D] then Some SecDesc
         else if isTagsHeader t \<or> t = [0x62A, 0x6AF] then Some SecTags
         else None)"

record ParseState =
  ps_section :: tplsection
  ps_source_link :: "jsstring option"
  ps_channel :: "jsstring list"
  ps_title :: "jsstring option"
  ps_desc :: "jsstring list"
  ps_tagsRaw :: "jsstring list"

definition parseLine :: "env \<Rightarrow> ParseState \<Rightarrow> jsstring \<Rightarrow> ParseState" where
  "parseLine w st l =
     (case isHeader l of
        Some h \<Rightarrow> st\<lparr>ps_section := h\<rparr>
      | None \<Rightarrow>
          (case ps_section st of
             SecUpload \<Rightarrow>
               if \<not> truthy (ps_source_link st) \<and> isUrl w l then st\<lparr>ps_source_link := Some l\<rparr>
               else st
           | SecChannel \<Rightarrow> st\<lparr>ps_channel := ps_channel st @ [l]\<rparr>
           | SecTitle \<Rightarrow> if \<not> truthy (ps_title st) then st\<lparr>ps_title := Some l\<rparr> else st
           | SecDesc \<Rightarrow> st\<lparr>ps_desc := ps_desc st @ [l]\<rparr>
           | SecTags \<Rightarrow> st\<lparr>ps_tagsRaw := ps_tagsRaw st @ [l]\<rparr>
           | SecNone \<Rightarrow> st))"

record ParsedTemplate =
  pt_source_link :: "jsstring option"
  pt_channel :: "jsstring option"
  pt_title :: "jsstring option"
  pt_description :: "jsstring option"
  pt_tags :: "jsstring list option"

definition parseGroupTemplate :: "env \<Rightarrow> jsstring \<Rightarrow> jsstring option \<Rightarrow> ParsedTemplate option" where
  "parseGroupTemplate w input bu =
     (let txt = (if truthy bu then removeMatches (canonicalize w) (0x40 # orEmpty bu) input
                 else input);
          lines = filter (\<lambda>l. 0 < length l) (map trim (js_split lineBreak txt));
          st = foldl (parseLine w)
                 \<lparr>ps_section = SecNone, ps_source_link = None, ps_channel = [],
                  ps_title = None, ps_desc = [], ps_tagsRaw = []\<rparr> lines;
          tgs = splitTags (join [0x20] (ps_tagsRaw st));
          result = \<lparr>pt_source_link = ps_source_link st,
                    pt_channel = orUndefined (Some (join [0x20] (ps_channel st))),
                    pt_title = map_option (take 100) (ps_title st),
                    pt_description = orUndefined (Some (take 5000 (join [0x0A] (ps_desc st)))),
                    pt_tags = (if tgs \<noteq> [] then Some (take 30 tgs) else None)\<rparr>
      in if \<not> truthy (pt_title result) \<and> \<not> truthy (pt_description result)
            \<and> (pt_tags result = None \<or> pt_tags result = Some [])
         then None else Some result)"

section \<open>The update processor\<close>

text \<open>
  The video reference a message offers: its video's \<open>file_id\<close>, or else the \<open>file_id\<close>
  of its document when the document's media type starts with \<open>video/\<close>. The source
  writes this expression twice, for \<open>msg.reply_to_message\<close> and for \<open>msg\<close>.
\<close>

definition videoIdOf :: "TgMessage option \<Rightarrow> jsstring option" where
  "videoIdOf m =
     js_or (map_option vid_file_id (Option.bind m video))
           (if (case Option.bind (Option.bind m document) doc_mime_type of
                  None \<Rightarrow> False
                | Some t \<Rightarrow> startsWith t (asc ''video/''))
            then map_option doc_file_id (Option.bind m document)
            else None)"

definition resolveVideoFileId :: "ParsedTemplate \<Rightarrow> TgMessage \<Rightarrow> jsstring option" where
  "resolveVideoFileId parsed msg =
     (let repliedVideoId = videoIdOf (reply_to_message msg);
          currentVideoId = videoIdOf (Some msg)
      in if truthy (pt_source_link parsed) then repliedVideoId
         else js_or repliedVideoId currentVideoId)"

text \<open>
  The reference a message offers as the specification words it, for comparison: the
  handle of its video, or else the handle of its document when the document's declared
  media type begins with \<open>video/\<close>; an empty handle is no reference.
\<close>

definition referenceAsSpecified :: "TgMessage option \<Rightarrow> jsstring option" where
  "referenceAsSpecified x =
     (case x of
        None \<Rightarrow> None
      | Some m \<Rightarrow>
          let fromVideo =
                (case video m of
                   None \<Rightarrow> None
                 | Some v \<Rightarrow> if vid_file_id v \<noteq> [] then Some (vid_file_id v) else None);
              fromDocument =
                (case document m of
                   None \<Rightarrow> None
                 | Some d \<Rightarrow>
                     (case doc_mime_type d of
                        None \<Rightarrow> None
                      | Some t \<Rightarrow>
                          if take 6 t = asc ''video/'' \<and> doc_file_id d \<noteq> []
                          then Some (doc_file_id d) else None))
          in case fromVideo of Some f \<Rightarrow> Some f | None \<Rightarrow> fromDocument)"

text \<open>
  The payloads. In a group the title, the description and the tags are those of the
  template, which the caller has found present, and the video carries what \<open>getFile\<close>
  reported. In the wizard they are the stored ones, which the caller has found present,
  and the video is the stored handle alone.
\<close>

definition groupPayload ::
  "TgMessage \<Rightarrow> int \<Rightarrow> ParsedTemplate \<Rightarrow> jsstring \<Rightarrow> FileCheck \<Rightarrow> N8nVideoPayload" where
  "groupPayload msg cid parsed fid fileCheck =
     \<lparr>p_chat_id = cid, p_from = from_user msg, p_message_id = message_id msg,
      p_date = date msg,
      p_video = \<lparr>pv_file_id = fid,
                 pv_file_path = Option.bind (fc_result fileCheck) file_path,
                 pv_file_size = Option.bind (fc_result fileCheck) file_size\<rparr>,
      p_title = orEmpty (pt_title parsed),
      p_description = orEmpty (pt_description parsed),
      p_tags = (case pt_tags parsed of None \<Rightarrow> [] | Some ts \<Rightarrow> ts),
      p_source_link = pt_source_link parsed,
      p_channel = pt_channel parsed\<rparr>"

definition wizardPayload :: "TgMessage \<Rightarrow> int \<Rightarrow> ChatState \<Rightarrow> N8nVideoPayload" where
  "wizardPayload msg cid st =
     \<lparr>p_chat_id = cid, p_from = from_user msg, p_message_id = message_id msg,
      p_date = date msg,
      p_video = \<lparr>pv_file_id = orEmpty (video_file_id st), pv_file_path = None,
                 pv_file_size = None\<rparr>,
      p_title = orEmpty (title st),
      p_description = orEmpty (description st),
      p_tags = (case tags st of None \<Rightarrow> [] | Some ts \<Rightarrow> ts),
      p_source_link = None,
      p_channel = None\<rparr>"

text \<open>The branch of a complete template in a group: from the typing indicator on.\<close>

definition dispatchGroup ::
  "env \<Rightarrow> TgMessage \<Rightarrow> int \<Rightarrow> ParsedTemplate \<Rightarrow> processor \<Rightarrow> processor" where
  "dispatchGroup w msg cid parsed p0 =
     (let p1 = sendChatAction cid (asc ''typing'') p0;
          videoFileId = resolveVideoFileId parsed msg
      in if \<not> truthy videoFileId
         then sendMessage cid
                (if truthy (pt_source_link parsed) then MsgNeedReplyForSourceLink else MsgNeedVideo)
                (Some (message_id msg)) p1
         else
           let fid = orEmpty videoFileId;
               fileCheck = getFile w fid;
               p2 = emit (GetFile fid) p1
           in if \<not> fc_ok fileCheck
              then sendMessage cid (MsgFileError (orUndefined (fc_description fileCheck)))
                     (Some (message_id msg)) p2
              else if \<not> truthy videoFileId \<or> length (trim fid) = 0
              then sendMessage cid MsgEmptyFileId (Some (message_id msg)) p2
              else
                let payload = groupPayload msg cid parsed fid fileCheck;
                    resp = sendVideo w payload;
                    p3 = emit (SendVideo payload) p2
                in if resp_ok resp
                   then sendMessage cid MsgGroupSuccess (Some (message_id msg)) p3
                   else sendMessage cid
                          (MsgN8nError (resp_status resp) (take 400 (orEmpty (resp_body resp))))
                          (Some (message_id msg)) p3)"

definition templateComplete :: "ParsedTemplate option \<Rightarrow> bool" where
  "templateComplete parsed =
     (case parsed of
        None \<Rightarrow> False
      | Some r \<Rightarrow> truthy (pt_title r) \<and> truthy (pt_description r)
                  \<and> (case pt_tags r of None \<Rightarrow> False | Some ts \<Rightarrow> 0 < length ts))"

definition handleGroup :: "env \<Rightarrow> TgMessage \<Rightarrow> int \<Rightarrow> jsstring \<Rightarrow> processor \<Rightarrow> processor" where
  "handleGroup w msg cid content p0 =
     (let p = ensureBotIdentity w p0;
          mentioned = isMentioned w msg (botUsername p) (botId p)
      in if \<not> mentioned then p
         else if content \<noteq> [] then
           (let parsed = parseGroupTemplate w content (botUsername p)
            in case parsed of
                 None \<Rightarrow> sendMessage cid MsgGuidance (Some (message_id msg)) p
               | Some r \<Rightarrow>
                   if templateComplete parsed then dispatchGroup w msg cid r p
                   else sendMessage cid MsgGuidance (Some (message_id msg)) p)
         else sendMessage cid MsgUnreadable (Some (message_id msg)) p)"

text \<open>The cancel and confirm keywords; the Persian words are U+0644 U+063A U+0648 and
  U+062A U+0627 U+06CC U+06CC U+062F.\<close>

definition isCancel :: "env \<Rightarrow> jsstring \<Rightarrow> bool" where
  "isCancel w txt =
     (txt = asc ''/cancel'' \<or> toLowerCase w txt = asc ''cancel'' \<or> txt = [0x644, 0x63A, 0x648])"

definition isConfirm :: "env \<Rightarrow> jsstring \<Rightarrow> bool" where
  "isConfirm w txt =
     (txt = asc ''/confirm'' \<or> toLowerCase w txt = asc ''confirm''
      \<or> txt = [0x62A, 0x627, 0x6CC, 0x6CC, 0x62F])"

definition orDash :: "jsstring \<Rightarrow> jsstring" where
  "orDash s = (if s \<noteq> [] then s else [0x2D])"

definition msgConfirm :: "ChatState \<Rightarrow> reply" where
  "msgConfirm st =
     (let tagsStr = join [0x20] (map (\<lambda>t. 0x23 # t) (case tags st of None \<Rightarrow> [] | Some ts \<Rightarrow> ts))
      in MsgConfirm (orDash (orEmpty (title st))) (orDash (orEmpty (description st)))
           (orDash tagsStr))"

definition confirmStep ::
  "env \<Rightarrow> TgMessage \<Rightarrow> int \<Rightarrow> jsstring \<Rightarrow> ChatState \<Rightarrow> processor \<Rightarrow> processor" where
  "confirmStep w msg cid txt st p =
     (if isConfirm w txt then
        if \<not> truthy (video_file_id st) \<or> \<not> truthy (title st) \<or> \<not> truthy (description st)
           \<or> tags st = None
        then repo_delete cid (sendMessage cid MsgIncomplete None p)
        else
          let p1 = sendChatAction cid (asc ''typing'') p;
              payload = wizardPayload msg cid st;
              resp = sendVideo w payload;
              p2 = emit (SendVideo payload) p1
          in if resp_ok resp
             then repo_delete cid (sendMessage cid MsgWizardSuccess None p2)
             else sendMessage cid
                    (MsgN8nError (resp_status resp) (take 400 (orEmpty (resp_body resp)))) None p2
      else if isCancel w txt
      then sendMessage cid MsgConfirmCancelled None (repo_delete cid p)
      else sendMessage cid MsgConfirmReminder None p)"

text \<open>The switch on the step of the loaded state.\<close>

definition handleStep ::
  "env \<Rightarrow> TgMessage \<Rightarrow> int \<Rightarrow> jsstring \<Rightarrow> ChatState \<Rightarrow> processor \<Rightarrow> processor" where
  "handleStep w msg cid txt st p =
     (case step st of
        awaiting_video \<Rightarrow>
          if truthy (map_option vid_file_id (video msg))
          then sendMessage cid MsgAskTitle None
                 (repo_save (st\<lparr>video_file_id := map_option vid_file_id (video msg),
                                step := awaiting_title, updatedAt := now w\<rparr>) p)
          else sendMessage cid MsgVideoRequired None p
      | awaiting_title \<Rightarrow>
          if txt \<noteq> []
          then sendMessage cid MsgAskDescription None
                 (repo_save (st\<lparr>title := Some (limit txt 100), step := awaiting_description,
                                updatedAt := now w\<rparr>) p)
          else sendMessage cid MsgTitleInvalid None p
      | awaiting_description \<Rightarrow>
          if txt \<noteq> []
          then sendMessage cid MsgAskTags None
                 (repo_save (st\<lparr>description := Some (limit txt 5000), step := awaiting_tags,
                                updatedAt := now w\<rparr>) p)
          else sendMessage cid MsgDescriptionInvalid None p
      | awaiting_tags \<Rightarrow>
          if txt \<noteq> []
          then (let tgs = parseTags txt
                in if length tgs = 0 then sendMessage cid MsgNoTags None p
                   else
                     let st' = st\<lparr>tags := Some tgs, step := awaiting_confirm,
                                   updatedAt := now w\<rparr>
                     in sendMessage cid (msgConfirm st') None (repo_save st' p))
          else sendMessage cid MsgTagsInvalid None p
      | awaiting_confirm \<Rightarrow> confirmStep w msg cid txt st p
      | other_step \<Rightarrow> sendMessage cid MsgUnknownState None (repo_delete cid p))"

text \<open>The private conversation: the commands, then the state, then the step.\<close>

definition handlePrivate :: "env \<Rightarrow> TgMessage \<Rightarrow> int \<Rightarrow> jsstring \<Rightarrow> processor \<Rightarrow> processor" where
  "handlePrivate w msg cid txt p =
     (if txt = asc ''/start''
      then sendMessage cid MsgWelcome None
             (repo_save \<lparr>chatId = cid, step = awaiting_video, video_file_id = None, title = None,
                         description = None, tags = None, updatedAt = now w\<rparr>
                (repo_delete cid p))
      else if isCancel w txt
      then sendMessage cid MsgCancelled None (repo_delete cid p)
      else
        let state = repo p cid;
            p1 = emit (RepoGet cid) p
        in case state of
             None \<Rightarrow>
               (case video msg of
                  Some v \<Rightarrow>
                    sendMessage cid MsgAskTitle None
                      (repo_save \<lparr>chatId = cid, step = awaiting_title,
                                  video_file_id = Some (vid_file_id v), title = None,
                                  description = None, tags = None, updatedAt = now w\<rparr> p1)
                | None \<Rightarrow> sendMessage cid MsgStartFirst None p1)
           | Some st \<Rightarrow> handleStep w msg cid txt st p1)"

definition handleUpdate :: "env \<Rightarrow> TgUpdate \<Rightarrow> processor \<Rightarrow> processor" where
  "handleUpdate w upd p =
     (case message upd of
        None \<Rightarrow> p
      | Some msg \<Rightarrow>
          let cid = chat_id (chat msg);
              txt = trim (orEmpty (text_of msg));
              cap = trim (orEmpty (caption msg));
              content = (if txt \<noteq> [] then txt else cap);
              chatType = chat_type (chat msg)
          in if chatType = asc ''group'' \<or> chatType = asc ''supergroup''
             then handleGroup w msg cid content p
             else handlePrivate w msg cid txt p)"


section \<open>Observing a call\<close>

text \<open>
  The calls one \<open>handleUpdate\<close> adds to the trace; which of them change the state store;
  and the video references handed to \<open>getFile\<close> and to the workflow.
\<close>

definition newEffects :: "env \<Rightarrow> TgUpdate \<Rightarrow> processor \<Rightarrow> effect list" where
  "newEffects w upd p = drop (length (trace p)) (trace (handleUpdate w upd p))"

fun isMutation :: "effect \<Rightarrow> bool" where
  "isMutation (RepoSave s) = True"
| "isMutation (RepoDelete k) = True"
| "isMutation e = False"

fun isDispatch :: "effect \<Rightarrow> bool" where
  "isDispatch (SendVideo pl) = True"
| "isDispatch e = False"

fun isRepoCall :: "effect \<Rightarrow> bool" where
  "isRepoCall (RepoGet k) = True"
| "isRepoCall (RepoSave s) = True"
| "isRepoCall (RepoDelete k) = True"
| "isRepoCall e = False"

fun fileIdsUsed :: "effect list \<Rightarrow> jsstring list" where
  "fileIdsUsed [] = []"
| "fileIdsUsed (GetFile f # es) = f # fileIdsUsed es"
| "fileIdsUsed (SendVideo pl # es) = pv_file_id (p_video pl) # fileIdsUsed es"
| "fileIdsUsed (e # es) = fileIdsUsed es"

text \<open>The replies a command or a confirmation produces, and no other branch.\<close>

fun isCommandReply :: "effect \<Rightarrow> bool" where
  "isCommandReply (SendMessage k MsgWelcome r) = True"
| "isCommandReply (SendMessage k MsgCancelled r) = True"
| "isCommandReply (SendMessage k MsgConfirmCancelled r) = True"
| "isCommandReply (SendMessage k MsgIncomplete r) = True"
| "isCommandReply (SendMessage k MsgWizardSuccess r) = True"
| "isCommandReply (SendMessage k (MsgN8nError st b) r) = True"
| "isCommandReply e = False"

text \<open>
  The calls \<open>ensureBotIdentity\<close> makes, and the \<open>content\<close> of a message: its trimmed
  text, or its trimmed caption when the text is empty.
\<close>

definition identityCalls :: "processor \<Rightarrow> effect list" where
  "identityCalls p = (if truthy (botUsername p) \<and> truthyNum (botId p) then [] else [GetMe])"

definition groupContent :: "TgMessage \<Rightarrow> jsstring" where
  "groupContent msg =
     (if trim (orEmpty (text_of msg)) \<noteq> [] then trim (orEmpty (text_of msg))
      else trim (orEmpty (caption msg)))"

text \<open>The \<open>text\<close> of \<open>handleUpdate\<close>: the trimmed text field, empty when there is none.\<close>

definition privateText :: "TgMessage \<Rightarrow> jsstring" where
  "privateText msg = trim (orEmpty (text_of msg))"



section \<open>Sample surroundings\<close>

text \<open>
  A runtime that folds case on Basic Latin, accepts \<open>https\<close> links, knows the bot as
  \<open>bot\<close> with id 7, accepts every file, and whose workflow answers as \<open>ok\<close> says.
\<close>

definition lowerUnit :: "16 word \<Rightarrow> 16 word" where
  "lowerUnit c = (if 0x41 \<le> c \<and> c \<le> 0x5A then c + 0x20 else c)"

definition upperUnit :: "16 word \<Rightarrow> 16 word" where
  "upperUnit c = (if 0x61 \<le> c \<and> c \<le> 0x7A then c - 0x20 else c)"

definition sample_env :: "bool \<Rightarrow> env" where
  "sample_env ok =
     \<lparr>toLowerCase = map lowerUnit,
      canonicalize = upperUnit,
      isUrl = (\<lambda>s. startsWith s (asc ''https://'')),
      getMe = \<lparr>me_id = Some 7, me_username = Some (asc ''bot'')\<rparr>,
      getFile = (\<lambda>f. \<lparr>fc_ok = True,
                       fc_result = Some \<lparr>file_path = Some (asc ''videos/1.mp4''),
                                         file_size = Some 1024\<rparr>,
                       fc_description = None\<rparr>),
      sendVideo = (\<lambda>pl. \<lparr>resp_ok = ok, resp_status = (if ok then 200 else 500),
                          resp_body = Some (asc ''upstream error'')\<rparr>),
      now = 1000\<rparr>"

definition sample_processor :: "(int \<Rightarrow> ChatState option) \<Rightarrow> processor" where
  "sample_processor r = \<lparr>repo = r, botUsername = None, botId = None, trace = []\<rparr>"

definition sample_user :: TgUser where
  "sample_user = \<lparr>user_id = 11, username = Some (asc ''ali''), first_name = None,
                  last_name = None, language_code = None\<rparr>"

text \<open>A message of conversation 5 of the given type with the given text, video
  and caption, and a message that replies to another.\<close>

definition sample_message ::
  "jsstring \<Rightarrow> jsstring option \<Rightarrow> TgVideo option \<Rightarrow> jsstring option \<Rightarrow> TgMessage" where
  "sample_message ty tx vd cap =
     TgMessage 42 (Some sample_user) \<lparr>chat_id = 5, chat_type = ty\<rparr> 1700000000
       tx vd None None cap None None"

definition sample_reply ::
  "jsstring \<Rightarrow> TgVideo option \<Rightarrow> TgMessage \<Rightarrow> TgMessage" where
  "sample_reply tx vd orig =
     TgMessage 43 (Some sample_user) \<lparr>chat_id = 5, chat_type = asc ''supergroup''\<rparr> 1700000001
       (Some tx) vd None None None None (Some orig)"

text \<open>
  The text of a template that mentions the bot: the upload header and a link when one is
  given, the title \<open>T\<close>, the description \<open>D\<close>, and the tags header with the given
  line of tags when one is given.
\<close>

definition sample_template :: "jsstring option \<Rightarrow> jsstring option \<Rightarrow> jsstring" where
  "sample_template link tagline =
     join [0x0A]
       ([asc ''@bot'']
        @ (case link of None \<Rightarrow> [] | Some l \<Rightarrow> [[0x622, 0x67E, 0x644, 0x648, 0x62F], l])
        @ [[0x639, 0x646, 0x648, 0x627, 0x646, 0x3A], asc ''T'',
           [0x62A, 0x648, 0x636, 0x6CC, 0x62D, 0x3A], asc ''D'']
        @ (case tagline of None \<Rightarrow> []
           | Some t \<Rightarrow> [[0x62A, 0x6AF, 0x20, 0x647, 0x627, 0x3A], t]))"

text \<open>A group message \<open>@botx hi\<close> whose only entity is the mention of \<open>@botx\<close>.\<close>

definition sample_other_mention :: TgMessage where
  "sample_other_mention =
     TgMessage 44 (Some sample_user) \<lparr>chat_id = 5, chat_type = asc ''group''\<rparr> 1700000002
       (Some (asc ''@botx hi'')) None None
       (Some [\<lparr>ent_offset = 0, ent_length = 5, ent_type = asc ''mention'', ent_user = None\<rparr>])
       None None None"

text \<open>The same text as the caption of a media message, with the entity among the
  caption's entities.\<close>

definition sample_other_mention_caption :: TgMessage where
  "sample_other_mention_caption =
     TgMessage 45 (Some sample_user) \<lparr>chat_id = 5, chat_type = asc ''group''\<rparr> 1700000003
       None None None None (Some (asc ''@botx hi''))
       (Some [\<lparr>ent_offset = 0, ent_length = 5, ent_type = asc ''mention'', ent_user = None\<rparr>])
       None"

text \<open>A group message that carries a document of the given media type and no video.\<close>

definition sample_document_message :: "jsstring \<Rightarrow> jsstring \<Rightarrow> TgMessage" where
  "sample_document_message fid mime =
     TgMessage 41 (Some sample_user) \<lparr>chat_id = 5, chat_type = asc ''supergroup''\<rparr> 1699999999
       None None (Some \<lparr>doc_file_id = fid, doc_mime_type = Some mime\<rparr>) None None None None"

definition sample_update :: "TgMessage \<Rightarrow> TgUpdate" where
  "sample_update msg = \<lparr>update_id = 1, message = Some msg\<rparr>"

definition sample_state :: "WizardStep \<Rightarrow> ChatState" where
  "sample_state s =
     \<lparr>chatId = 5, step = s, video_file_id = Some (asc ''vid-1''), title = Some (asc ''T''),
      description = Some (asc ''D''), tags = Some [asc ''x'', asc ''y''], updatedAt = 900\<rparr>"

section \<open>Properties of the tag functions\<close>

text \<open>
  C1. On the example of the tag prompt \<open>splitTags\<close> is expected to give the three tags.
  It gives six pieces: the separator \<open>\s*\<close> U+0648 \<open>\s*\<close> needs no white space, so
  every letter U+0648 inside a word splits it.
\<close>

theorem splitTags_example_six_pieces:
  "splitTags tag_example =
     [[0x622, 0x645], [0x632, 0x634],
      [0x628, 0x631, 0x646, 0x627, 0x645, 0x647, 0x20, 0x646], [0x6CC, 0x633, 0x6CC],
      [0x62C, 0x627], [0x627, 0x627, 0x633, 0x6A9, 0x631, 0x6CC, 0x67E, 0x62A]]
   \<and> splitTags tag_example \<noteq> tag_example_expected"
  by (simp add: splitTags_def tag_example_def tag_example_expected_def js_split_def
      tagSeparator_def wordSeparator_def isTagComma_def isSpace_def trim_def stripHash_def)

subsection \<open>The wizard's tags against the template's\<close>

lemma hasAnd_tl: "\<not> hasAnd (c # cs) \<Longrightarrow> \<not> hasAnd cs"
  by (cases cs rule: hasAnd.cases) auto

lemma hasAnd_dropWhile: "\<not> hasAnd s \<Longrightarrow> \<not> hasAnd (dropWhile P s)"
  by (induction s) (auto dest: hasAnd_tl)

lemma commaOnly_tl: "commaOnly (c # cs) \<Longrightarrow> commaOnly cs"
  by (auto simp: commaOnly_def dest: hasAnd_tl)

lemma commaOnly_dropWhile: "commaOnly s \<Longrightarrow> commaOnly (dropWhile P s)"
  by (induction s) (auto dest: commaOnly_tl)

lemma wordSeparator_NoneI:
  "\<not> (length w \<le> length (dropWhile isSpace s) \<and> list_all2 (\<lambda>P c. P c) w (take (length w) (dropWhile isSpace s)))
   \<Longrightarrow> wordSeparator w s = None"
  unfolding wordSeparator_def Let_def by (simp only: if_False)

lemma wordSeparator_vav: "0x0648 \<notin> set s \<Longrightarrow> wordSeparator [\<lambda>c. c = 0x0648] s = None"
proof (rule wordSeparator_NoneI)
  assume a: "0x0648 \<notin> set s"
  define r where "r = dropWhile isSpace s"
  have "set r \<subseteq> set s" unfolding r_def by (auto dest: set_dropWhileD)
  with a have b: "0x0648 \<notin> set r" by blast
  have "\<not> (length [\<lambda>c::16 word. c = 0x0648] \<le> length r \<and> list_all2 (\<lambda>P c. P c) [\<lambda>c. c = 0x0648] (take (length [\<lambda>c::16 word. c = 0x0648]) r))"
    using b by (cases r) auto
  then show "\<not> (length [\<lambda>c::16 word. c = 0x0648] \<le> length (dropWhile isSpace s) \<and>
        list_all2 (\<lambda>P c. P c) [\<lambda>c. c = 0x0648] (take (length [\<lambda>c::16 word. c = 0x0648]) (dropWhile isSpace s)))"
    unfolding r_def .
qed

lemma list_all2_and:
  "\<not> hasAnd r \<Longrightarrow> \<not> (Suc (Suc (Suc 0)) \<le> length r \<and> list_all2 (\<lambda>P c. P c)
     [\<lambda>c. c = 0x61 \<or> c = 0x41, \<lambda>c. c = 0x6E \<or> c = 0x4E, \<lambda>c. c = 0x64 \<or> c = 0x44] (take (Suc (Suc (Suc 0))) r))"
  by (cases r rule: hasAnd.cases) auto

lemma wordSeparator_and: "\<not> hasAnd s \<Longrightarrow>
  wordSeparator [\<lambda>c. c = 0x61 \<or> c = 0x41, \<lambda>c. c = 0x6E \<or> c = 0x4E, \<lambda>c. c = 0x64 \<or> c = 0x44] s = None"
proof (rule wordSeparator_NoneI)
  assume "\<not> hasAnd s"
  then have b: "\<not> hasAnd (dropWhile isSpace s)" by (rule hasAnd_dropWhile)
  from list_all2_and [OF b]
  show "\<not> (length [\<lambda>c::16 word. c = 0x61 \<or> c = 0x41, \<lambda>c. c = 0x6E \<or> c = 0x4E, \<lambda>c. c = 0x64 \<or> c = 0x44] \<le> length (dropWhile isSpace s) \<and>
        list_all2 (\<lambda>P c. P c) [\<lambda>c. c = 0x61 \<or> c = 0x41, \<lambda>c. c = 0x6E \<or> c = 0x4E, \<lambda>c. c = 0x64 \<or> c = 0x44]
          (take (length [\<lambda>c::16 word. c = 0x61 \<or> c = 0x41, \<lambda>c. c = 0x6E \<or> c = 0x4E, \<lambda>c. c = 0x64 \<or> c = 0x44]) (dropWhile isSpace s)))"
    by simp
qed

lemma tagSeparator_other:
  "commaOnly (c # cs) \<Longrightarrow> c \<noteq> 0x2C \<Longrightarrow> tagSeparator (c # cs) = None"
  by (simp add: tagSeparator_def isTagComma_def wordSeparator_vav wordSeparator_and commaOnly_def del: hasAnd.simps)

lemma tagSeparator_comma:
  "tagSeparator (0x2C # cs) = Some (Suc (length (takeWhile isTagComma cs)))"
  by (simp add: tagSeparator_def isTagComma_def)

lemma strSeparator_comma: "strSeparator [0x2C] (c # cs) = (if c = 0x2C then Some 1 else None)"
  by (simp add: strSeparator_def)

lemma keptPieces_Cons_Nil: "keptPieces ([] # xs) = keptPieces xs"
  by (simp add: keptPieces_def trim_def)

lemma str_skip_commas:
  "commaOnly cs \<Longrightarrow> keptPieces (split_loop (strSeparator [0x2C]) [] cs)
     = keptPieces (split_loop (strSeparator [0x2C]) [] (dropWhile isTagComma cs))"
proof (induction cs)
  case Nil then show ?case by simp
next
  case (Cons c cs)
  from Cons.prems have co: "commaOnly cs" by (rule commaOnly_tl)
  show ?case
  proof (cases "c = 0x2C")
    case True
    then show ?thesis using Cons.IH [OF co]
      by (simp add: strSeparator_comma isTagComma_def keptPieces_Cons_Nil)
  next
    case False
    with Cons.prems have "\<not> isTagComma c" by (auto simp: isTagComma_def commaOnly_def)
    then show ?thesis by simp
  qed
qed

lemma split_agree:
  "commaOnly r \<Longrightarrow> keptPieces (split_loop tagSeparator cur r) = keptPieces (split_loop (strSeparator [0x2C]) cur r)"
proof (induction "length r" arbitrary: r cur rule: less_induct)
  case less
  show ?case
  proof (cases r)
    case Nil then show ?thesis by simp
  next
    case (Cons c cs)
    from less.prems Cons have co: "commaOnly cs" by (auto dest: commaOnly_tl)
    show ?thesis
    proof (cases "c = 0x2C")
      case False
      have "tagSeparator (c # cs) = None" using less.prems Cons False by (simp add: tagSeparator_other)
      moreover have "keptPieces (split_loop tagSeparator (cur @ [c]) cs) = keptPieces (split_loop (strSeparator [0x2C]) (cur @ [c]) cs)"
        using less.hyps [of cs "cur @ [c]"] co Cons by simp
      ultimately show ?thesis using Cons False by (simp add: strSeparator_comma)
    next
      case True
      let ?d = "dropWhile isTagComma cs"
      have len: "length ?d < length r" using Cons by (simp add: length_dropWhile_le less_Suc_eq_le)
      have cod: "commaOnly ?d" using co by (rule commaOnly_dropWhile)
      have drop: "drop (length (takeWhile isTagComma cs)) cs = ?d"
        by (simp add: dropWhile_eq_drop)
      have "keptPieces (split_loop tagSeparator [] ?d) = keptPieces (split_loop (strSeparator [0x2C]) [] ?d)"
        using less.hyps [OF len cod] .
      also have "\<dots> = keptPieces (split_loop (strSeparator [0x2C]) [] cs)"
        using str_skip_commas [OF co] by simp
      finally have "keptPieces (split_loop tagSeparator [] ?d) = keptPieces (split_loop (strSeparator [0x2C]) [] cs)" .
      then show ?thesis using Cons True drop
        by (simp add: tagSeparator_comma strSeparator_comma keptPieces_def)
    qed
  qed
qed


text \<open>
  C2, as stated: the wizard's \<open>parseTags\<close> and the template parser's \<open>splitTags\<close>,
  capped at 30, give the same tags on every input. They differ on \<open>a\<close>, space,
  U+0648, space, \<open>b\<close>: the wizard splits at the ASCII comma only.
\<close>

theorem parseTags_differs_from_splitTags:
  "parseTags [0x61, 0x20, 0x648, 0x20, 0x62] = [[0x61, 0x20, 0x648, 0x20, 0x62]]
   \<and> take 30 (splitTags [0x61, 0x20, 0x648, 0x20, 0x62]) = [[0x61], [0x62]]
   \<and> parseTags [0x61, 0x20, 0x648, 0x20, 0x62] \<noteq> take 30 (splitTags [0x61, 0x20, 0x648, 0x20, 0x62])"
  by (simp add: parseTags_def strSeparator_def splitTags_def js_split_def tagSeparator_def
      wordSeparator_def isTagComma_def isSpace_def trim_def stripHash_def)

text \<open>
  C2, amended: on every input without Arabic comma, line feed, letter U+0648 and
  \<open>and\<close> in any capitalisation, the wizard's \<open>parseTags\<close> gives the tags of \<open>splitTags\<close>
  capped at 30.
\<close>

theorem parseTags_eq_splitTags_commaOnly:
  "commaOnly s \<Longrightarrow> parseTags s = take 30 (splitTags s)"
proof (cases "s = []")
  case True
  then show ?thesis
    by (simp add: parseTags_def splitTags_def js_split_def strSeparator_def trim_def)
next
  case False
  assume "commaOnly s"
  then have "keptPieces (split_loop tagSeparator [] s)
      = keptPieces (split_loop (strSeparator [0x2C]) [] s)"
    by (rule split_agree)
  with False show ?thesis
    by (simp add: parseTags_def splitTags_def js_split_def keptPieces_def)
qed

theorem parseTags_eq_splitTags_commaOnly_witness:
  "commaOnly (asc ''#x, y z,,w'')
   \<and> parseTags (asc ''#x, y z,,w'') = take 30 (splitTags (asc ''#x, y z,,w''))
   \<and> parseTags (asc ''#x, y z,,w'') = [asc ''x'', asc ''y z'', asc ''w'']"
  using parseTags_eq_splitTags_commaOnly [of "asc ''#x, y z,,w''"]
  by (simp add: asc_def commaOnly_def parseTags_def strSeparator_def js_split_def trim_def
      isSpace_def stripHash_def)

section \<open>Properties of mention detection\<close>

lemma entitiesMention_iff:
  "entitiesMention w txt bu bi es =
     ((truthyNum bi \<and> list_ex (\<lambda>e. ent_type e = asc ''text_mention''
                                  \<and> map_option user_id (ent_user e) = bi) es)
      \<or> (truthy bu \<and> txt \<noteq> []
          \<and> list_ex (\<lambda>e. ent_type e = asc ''mention''
                \<and> toLowerCase w (substring txt (ent_offset e) (ent_offset e + ent_length e))
                    = toLowerCase w (0x40 # orEmpty bu)) es))"
  by (induction es) auto

lemma startsWith_iff: "startsWith s p \<longleftrightarrow> (\<exists>c. s = p @ c)"
  by (induction s p rule: startsWith.induct) auto

lemma js_includes_iff: "js_includes s p \<longleftrightarrow> (\<exists>a c. s = a @ p @ c)"
proof (induction s)
  case Nil
  show ?case by (cases p) auto
next
  case (Cons d s)
  show ?case
  proof
    assume "js_includes (d # s) p"
    then consider "startsWith (d # s) p" | "js_includes s p" by auto
    then show "\<exists>a c. d # s = a @ p @ c"
    proof cases
      case 1
      then obtain c where "d # s = p @ c" unfolding startsWith_iff ..
      then have "d # s = [] @ p @ c" by simp
      then show ?thesis by blast
    next
      case 2
      then obtain a c where "s = a @ p @ c" unfolding Cons.IH by blast
      then have "d # s = (d # a) @ p @ c" by simp
      then show ?thesis by blast
    qed
  next
    assume "\<exists>a c. d # s = a @ p @ c"
    then obtain a c where e: "d # s = a @ p @ c" by blast
    show "js_includes (d # s) p"
    proof (cases a)
      case Nil
      with e have "startsWith (d # s) p" unfolding startsWith_iff by auto
      then show ?thesis by simp
    next
      case (Cons d' a')
      with e have "s = a' @ p @ c" by simp
      then have "js_includes s p" unfolding Cons.IH by blast
      then show ?thesis by simp
    qed
  qed
qed

text \<open>
  What \<open>isMentioned\<close> computes: the bot counts as mentioned exactly when its id is known
  and a \<open>text_mention\<close> entity refers to it, or its handle is known, the text is not empty,
  and either a \<open>mention\<close> entity covers the handle up to case or the raw text contains the
  handle up to case. A message without entity metadata whose text contains the handle is
  a mention.
\<close>

lemma isMentioned_computes:
  "(isMentioned w msg bu bi \<longleftrightarrow>
      (truthyNum bi \<and> list_ex (\<lambda>e. ent_type e = asc ''text_mention''
                                  \<and> map_option user_id (ent_user e) = bi) (entitiesOf msg))
      \<or> (truthy bu \<and> rawText msg \<noteq> []
          \<and> (list_ex (\<lambda>e. ent_type e = asc ''mention''
                \<and> toLowerCase w (substring (rawText msg) (ent_offset e) (ent_offset e + ent_length e))
                    = toLowerCase w (0x40 # orEmpty bu)) (entitiesOf msg)
              \<or> js_includes (toLowerCase w (rawText msg)) (toLowerCase w (0x40 # orEmpty bu)))))
   \<and> (entities msg = None \<and> caption_entities msg = None \<and> truthy bu \<and> rawText msg \<noteq> []
        \<and> js_includes (toLowerCase w (rawText msg)) (toLowerCase w (0x40 # orEmpty bu))
       \<longrightarrow> isMentioned w msg bu bi)
   \<and> (entities msg = None \<and> caption_entities msg = None \<and> truthy bu
        \<and> js_includes (rawText msg) (0x40 # orEmpty bu)
        \<and> (\<forall>a c. \<exists>x y. toLowerCase w (a @ (0x40 # orEmpty bu) @ c)
                          = x @ toLowerCase w (0x40 # orEmpty bu) @ y)
       \<longrightarrow> isMentioned w msg bu bi)"
proof -
  have a: "isMentioned w msg bu bi \<longleftrightarrow>
      (truthyNum bi \<and> list_ex (\<lambda>e. ent_type e = asc ''text_mention''
                                  \<and> map_option user_id (ent_user e) = bi) (entitiesOf msg))
      \<or> (truthy bu \<and> rawText msg \<noteq> []
          \<and> (list_ex (\<lambda>e. ent_type e = asc ''mention''
                \<and> toLowerCase w (substring (rawText msg) (ent_offset e) (ent_offset e + ent_length e))
                    = toLowerCase w (0x40 # orEmpty bu)) (entitiesOf msg)
              \<or> js_includes (toLowerCase w (rawText msg)) (toLowerCase w (0x40 # orEmpty bu))))"
    unfolding isMentioned_def Let_def entitiesMention_iff by auto
  have b: "isMentioned w msg bu bi"
    if "truthy bu" "rawText msg \<noteq> []"
      "js_includes (toLowerCase w (rawText msg)) (toLowerCase w (0x40 # orEmpty bu))"
    using that unfolding a by simp
  have c: "isMentioned w msg bu bi"
    if t: "truthy bu" and r: "js_includes (rawText msg) (0x40 # orEmpty bu)"
      and h: "\<forall>a c. \<exists>x y. toLowerCase w (a @ (0x40 # orEmpty bu) @ c)
                          = x @ toLowerCase w (0x40 # orEmpty bu) @ y"
  proof -
    from r obtain a c where e: "rawText msg = a @ (0x40 # orEmpty bu) @ c"
      unfolding js_includes_iff by blast
    then have ne: "rawText msg \<noteq> []" by simp
    from h obtain x y where "toLowerCase w (a @ (0x40 # orEmpty bu) @ c)
        = x @ toLowerCase w (0x40 # orEmpty bu) @ y" by blast
    then have "js_includes (toLowerCase w (rawText msg)) (toLowerCase w (0x40 # orEmpty bu))"
      unfolding e js_includes_iff by blast
    with t ne show ?thesis by (rule b)
  qed
  from a b c show ?thesis by blast
qed

section \<open>Properties of the group flow\<close>

lemma emit_simps [simp]:
  "trace (emit e p) = trace p @ [e]" "repo (emit e p) = repo p"
  "botUsername (emit e p) = botUsername p" "botId (emit e p) = botId p"
  by (simp_all add: emit_def)

lemma sendMessage_simps [simp]:
  "trace (sendMessage k r t p) = trace p @ [SendMessage k r t]" "repo (sendMessage k r t p) = repo p"
  by (simp_all add: sendMessage_def)

lemma sendChatAction_simps [simp]:
  "trace (sendChatAction k a p) = trace p @ [SendChatAction k a]" "repo (sendChatAction k a p) = repo p"
  by (simp_all add: sendChatAction_def)

lemma repo_save_simps [simp]:
  "trace (repo_save s p) = trace p @ [RepoSave s]" "repo (repo_save s p) = (repo p)(chatId s \<mapsto> s)"
  by (simp_all add: repo_save_def)

lemma repo_delete_simps [simp]:
  "trace (repo_delete k p) = trace p @ [RepoDelete k]" "repo (repo_delete k p) = (repo p)(k := None)"
  by (simp_all add: repo_delete_def)

lemma ensureBotIdentity_simps [simp]:
  "repo (ensureBotIdentity w p) = repo p"
  "trace (ensureBotIdentity w p) = trace p @ identityCalls p"
  by (simp_all add: ensureBotIdentity_def identityCalls_def)

lemma parse_empty: "parseGroupTemplate w [] bu = None"
  by (simp add: parseGroupTemplate_def js_split_def trim_def splitTags_def truthy_def orUndefined_def)

lemma handleUpdate_group_incomplete:
  assumes "message upd = Some msg"
    and "chat_type (chat msg) = asc ''group'' \<or> chat_type (chat msg) = asc ''supergroup''"
    and "isMentioned w msg (botUsername (ensureBotIdentity w p)) (botId (ensureBotIdentity w p))"
    and "parseGroupTemplate w (groupContent msg) (botUsername (ensureBotIdentity w p)) = Some r"
    and "\<not> templateComplete (Some r)"
  shows "handleUpdate w upd p
         = sendMessage (chat_id (chat msg)) MsgGuidance (Some (message_id msg)) (ensureBotIdentity w p)"
proof -
  have "groupContent msg \<noteq> []" using assms(4) parse_empty by fastforce
  then show ?thesis using assms
    by (auto simp: handleUpdate_def handleGroup_def Let_def groupContent_def)
qed

lemma handleUpdate_group_complete:
  assumes "message upd = Some msg"
    and "chat_type (chat msg) = asc ''group'' \<or> chat_type (chat msg) = asc ''supergroup''"
    and "isMentioned w msg (botUsername (ensureBotIdentity w p)) (botId (ensureBotIdentity w p))"
    and "parseGroupTemplate w (groupContent msg) (botUsername (ensureBotIdentity w p)) = Some r"
    and "templateComplete (Some r)"
  shows "handleUpdate w upd p
         = dispatchGroup w msg (chat_id (chat msg)) r (ensureBotIdentity w p)"
proof -
  have "groupContent msg \<noteq> []" using assms(4) parse_empty by fastforce
  then show ?thesis using assms
    by (auto simp: handleUpdate_def handleGroup_def Let_def groupContent_def)
qed

lemma trace_dispatchGroup:
  "trace (dispatchGroup w msg cid r q) = trace q @
     SendChatAction cid (asc ''typing'') #
     (if \<not> truthy (resolveVideoFileId r msg)
      then [SendMessage cid (if truthy (pt_source_link r) then MsgNeedReplyForSourceLink else MsgNeedVideo) (Some (message_id msg))]
      else GetFile (orEmpty (resolveVideoFileId r msg)) #
        (if \<not> fc_ok (getFile w (orEmpty (resolveVideoFileId r msg)))
         then [SendMessage cid (MsgFileError (orUndefined (fc_description (getFile w (orEmpty (resolveVideoFileId r msg)))))) (Some (message_id msg))]
         else if trim (orEmpty (resolveVideoFileId r msg)) = []
         then [SendMessage cid MsgEmptyFileId (Some (message_id msg))]
         else [SendVideo (groupPayload msg cid r (orEmpty (resolveVideoFileId r msg)) (getFile w (orEmpty (resolveVideoFileId r msg)))),
               SendMessage cid
                 (if resp_ok (sendVideo w (groupPayload msg cid r (orEmpty (resolveVideoFileId r msg)) (getFile w (orEmpty (resolveVideoFileId r msg)))))
                  then MsgGroupSuccess
                  else MsgN8nError (resp_status (sendVideo w (groupPayload msg cid r (orEmpty (resolveVideoFileId r msg)) (getFile w (orEmpty (resolveVideoFileId r msg))))))
                         (take 400 (orEmpty (resp_body (sendVideo w (groupPayload msg cid r (orEmpty (resolveVideoFileId r msg)) (getFile w (orEmpty (resolveVideoFileId r msg)))))))))
                 (Some (message_id msg))]))"
  by (simp add: dispatchGroup_def Let_def)


lemma fileIdsUsed_identityCalls [simp]: "fileIdsUsed (identityCalls p @ es) = fileIdsUsed es"
  by (simp add: identityCalls_def)

lemma pv_groupPayload [simp]: "pv_file_id (p_video (groupPayload msg cid r f fc)) = f"
  by (simp add: groupPayload_def)

text \<open>
  C6. A group message that mentions the bot and whose template gives at least one field
  but no title, or no description, or no tag: the processor resolves the bot's identity
  if it has not yet, sends the guidance template in reply, and stops. It makes no
  dispatch and no call on the state store, and the store is as before.
\<close>

theorem group_incomplete_template_guidance:
  assumes "message upd = Some msg"
    and "chat_type (chat msg) = asc ''group'' \<or> chat_type (chat msg) = asc ''supergroup''"
    and "isMentioned w msg (botUsername (ensureBotIdentity w p)) (botId (ensureBotIdentity w p))"
    and "parseGroupTemplate w (groupContent msg) (botUsername (ensureBotIdentity w p)) = Some r"
    and "\<not> truthy (pt_title r) \<or> \<not> truthy (pt_description r) \<or> pt_tags r = None \<or> pt_tags r = Some []"
  shows "newEffects w upd p
           = identityCalls p @ [SendMessage (chat_id (chat msg)) MsgGuidance (Some (message_id msg))]
         \<and> \<not> list_ex isDispatch (newEffects w upd p)
         \<and> \<not> list_ex isRepoCall (newEffects w upd p)
         \<and> repo (handleUpdate w upd p) = repo p"
proof -
  from assms(5) have "\<not> templateComplete (Some r)"
    by (auto simp: templateComplete_def split: option.splits)
  from handleUpdate_group_incomplete [OF assms(1-4) this]
  show ?thesis by (simp add: newEffects_def identityCalls_def)
qed

lemma startsWith_take: "startsWith s p \<longleftrightarrow> take (length p) s = p"
  by (induction s p rule: startsWith.induct) auto

lemma video_marker_length: "length (asc ''video/'') = 6"
  by (simp add: asc_def)

lemma videoIdOf_as_specified:
  "referenceAsSpecified x = (if truthy (videoIdOf x) then Some (orEmpty (videoIdOf x)) else None)"
  by (cases x)
     (auto simp: referenceAsSpecified_def videoIdOf_def js_or_def truthy_def orEmpty_def Let_def
        startsWith_take video_marker_length split: option.splits)

lemma referenceAsSpecified_Some:
  "referenceAsSpecified x = Some f \<Longrightarrow> truthy (videoIdOf x) \<and> orEmpty (videoIdOf x) = f"
  by (simp add: videoIdOf_as_specified split: if_splits)

lemma referenceAsSpecified_None:
  "referenceAsSpecified x = None \<Longrightarrow> \<not> truthy (videoIdOf x)"
  by (simp add: videoIdOf_as_specified split: if_splits)

text \<open>
  C4. A group message that mentions the bot with a complete template. A message's
  reference is the handle of its video, or else of its document whose media type begins
  with \<open>video/\<close>. With a source link, the only reference handed to \<open>getFile\<close> and to the
  workflow is the replied-to message's, and when that message offers none the processor
  asks for a reply and uses no reference, whatever the current message carries. Without
  a source link the replied-to message's reference is used when there is one, otherwise
  the current message's, otherwise the processor asks for a video.
\<close>

theorem group_video_precedence:
  assumes "message upd = Some msg"
    and "chat_type (chat msg) = asc ''group'' \<or> chat_type (chat msg) = asc ''supergroup''"
    and "isMentioned w msg (botUsername (ensureBotIdentity w p)) (botId (ensureBotIdentity w p))"
    and "parseGroupTemplate w (groupContent msg) (botUsername (ensureBotIdentity w p)) = Some r"
    and "truthy (pt_title r)" and "truthy (pt_description r)" and "pt_tags r = Some ts" and "ts \<noteq> []"
  shows "(truthy (pt_source_link r) \<and> referenceAsSpecified (reply_to_message msg) = Some f \<longrightarrow>
            GetFile f \<in> set (newEffects w upd p)
            \<and> set (fileIdsUsed (newEffects w upd p)) = {f})
       \<and> (truthy (pt_source_link r) \<and> referenceAsSpecified (reply_to_message msg) = None \<longrightarrow>
            fileIdsUsed (newEffects w upd p) = []
            \<and> newEffects w upd p = identityCalls p @
                [SendChatAction (chat_id (chat msg)) (asc ''typing''),
                 SendMessage (chat_id (chat msg)) MsgNeedReplyForSourceLink (Some (message_id msg))])
       \<and> (\<not> truthy (pt_source_link r) \<and> referenceAsSpecified (reply_to_message msg) = Some f \<longrightarrow>
            GetFile f \<in> set (newEffects w upd p)
            \<and> set (fileIdsUsed (newEffects w upd p)) = {f})
       \<and> (\<not> truthy (pt_source_link r) \<and> referenceAsSpecified (reply_to_message msg) = None
            \<and> referenceAsSpecified (Some msg) = Some f \<longrightarrow>
            GetFile f \<in> set (newEffects w upd p)
            \<and> set (fileIdsUsed (newEffects w upd p)) = {f})
       \<and> (\<not> truthy (pt_source_link r) \<and> referenceAsSpecified (reply_to_message msg) = None
            \<and> referenceAsSpecified (Some msg) = None \<longrightarrow>
            fileIdsUsed (newEffects w upd p) = []
            \<and> newEffects w upd p = identityCalls p @
                [SendChatAction (chat_id (chat msg)) (asc ''typing''),
                 SendMessage (chat_id (chat msg)) MsgNeedVideo (Some (message_id msg))])"
proof -
  have tc: "templateComplete (Some r)" using assms(5-8) by (simp add: templateComplete_def)
  have eff: "newEffects w upd p = identityCalls p @
      drop (length (trace (ensureBotIdentity w p)))
        (trace (dispatchGroup w msg (chat_id (chat msg)) r (ensureBotIdentity w p)))"
    unfolding newEffects_def handleUpdate_group_complete [OF assms(1-4) tc]
    by (simp add: trace_dispatchGroup)
  show ?thesis unfolding eff trace_dispatchGroup videoIdOf_as_specified
    by (cases "truthy (videoIdOf (reply_to_message msg))"; cases "truthy (videoIdOf (Some msg))")
       (auto simp: resolveVideoFileId_def Let_def js_or_def)
qed


text \<open>
  C9, amended: in the group flow with a complete template, every reference handed to
  \<open>getFile\<close> is the resolved one and is not the empty string, so the first half of the
  defensive test never holds; the internal-error reply is sent exactly when the resolved
  reference passed the \<open>getFile\<close> check and consists of white space only.
\<close>

theorem group_empty_file_id_guard:
  assumes "message upd = Some msg"
    and "chat_type (chat msg) = asc ''group'' \<or> chat_type (chat msg) = asc ''supergroup''"
    and "isMentioned w msg (botUsername (ensureBotIdentity w p)) (botId (ensureBotIdentity w p))"
    and "parseGroupTemplate w (groupContent msg) (botUsername (ensureBotIdentity w p)) = Some r"
    and "truthy (pt_title r)" and "truthy (pt_description r)" and "pt_tags r = Some ts" and "ts \<noteq> []"
  shows "(\<forall>f. GetFile f \<in> set (newEffects w upd p) \<longrightarrow> f \<noteq> [] \<and> Some f = resolveVideoFileId r msg)
       \<and> (SendMessage (chat_id (chat msg)) MsgEmptyFileId (Some (message_id msg)) \<in> set (newEffects w upd p)
            \<longleftrightarrow> truthy (resolveVideoFileId r msg)
                \<and> fc_ok (getFile w (orEmpty (resolveVideoFileId r msg)))
                \<and> trim (orEmpty (resolveVideoFileId r msg)) = [])"
proof -
  have tc: "templateComplete (Some r)" using assms(5-8) by (simp add: templateComplete_def)
  have eff: "newEffects w upd p = identityCalls p @
      drop (length (trace (ensureBotIdentity w p)))
        (trace (dispatchGroup w msg (chat_id (chat msg)) r (ensureBotIdentity w p)))"
    unfolding newEffects_def handleUpdate_group_complete [OF assms(1-4) tc]
    by (simp add: trace_dispatchGroup)
  show ?thesis unfolding eff trace_dispatchGroup
    by (auto simp: identityCalls_def truthy_def orEmpty_def split: option.splits)
qed

subsection \<open>The sample group messages\<close>

lemmas sample_eval =
  sample_template_def sample_env_def sample_message_def sample_reply_def sample_update_def
  sample_processor_def asc_def truthy_def truthyNum_def orEmpty_def orUndefined_def js_or_def
  upperUnit_def lowerUnit_def js_split_def trim_def isSpace_def

lemmas parser_eval =
  parseGroupTemplate_def parseLine_def isHeader_def isTagsHeader_def splitTags_def
  tagSeparator_def wordSeparator_def isTagComma_def stripHash_def

lemma sample_identity:
  "botUsername (ensureBotIdentity (sample_env ok) (sample_processor r)) = Some (asc ''bot'')"
  "botId (ensureBotIdentity (sample_env ok) (sample_processor r)) = Some 7"
  "identityCalls (sample_processor r) = [GetMe]"
  by (simp_all add: ensureBotIdentity_def identityCalls_def sample_env_def sample_processor_def
      emit_def truthy_def truthyNum_def orUndefined_def asc_def)

lemma sample_message_fields:
  "message (sample_update m) = Some m"
  "chat_type (chat (sample_message ty tx vd cap)) = ty"
  "chat_id (chat (sample_message ty tx vd cap)) = 5"
  "message_id (sample_message ty tx vd cap) = 42"
  "chat_type (chat (sample_reply t vd orig)) = asc ''supergroup''"
  "chat_id (chat (sample_reply t vd orig)) = 5"
  "message_id (sample_reply t vd orig) = 43"
  by (simp_all add: sample_update_def sample_message_def sample_reply_def)

lemma parse_sample_plain:
  "parseGroupTemplate (sample_env True) (sample_template None (Some (asc ''x, y''))) (Some (asc ''bot''))
    = Some \<lparr>pt_source_link = None, pt_channel = None, pt_title = Some (asc ''T''),
            pt_description = Some (asc ''D''), pt_tags = Some [asc ''x'', asc ''y'']\<rparr>"
  by (simp add: parser_eval sample_eval)

lemma parse_sample_link:
  "parseGroupTemplate (sample_env True)
     (sample_template (Some (asc ''https://t.me/c/1'')) (Some (asc ''x, y''))) (Some (asc ''bot''))
    = Some \<lparr>pt_source_link = Some (asc ''https://t.me/c/1''), pt_channel = None,
            pt_title = Some (asc ''T''), pt_description = Some (asc ''D''),
            pt_tags = Some [asc ''x'', asc ''y'']\<rparr>"
  by (simp add: parser_eval sample_eval)

lemma parse_sample_notags:
  "parseGroupTemplate (sample_env True) (sample_template None None) (Some (asc ''bot''))
    = Some \<lparr>pt_source_link = None, pt_channel = None, pt_title = Some (asc ''T''),
            pt_description = Some (asc ''D''), pt_tags = None\<rparr>"
  by (simp add: parser_eval sample_eval)

lemma sample_notags_message:
  "isMentioned (sample_env True)
     (sample_message (asc ''supergroup'') (Some (sample_template None None)) None None)
     (Some (asc ''bot'')) (Some 7)"
  "groupContent (sample_message (asc ''supergroup'') (Some (sample_template None None)) None None)
     = sample_template None None"
  by (simp_all add: isMentioned_def rawText_def entitiesOf_def groupContent_def sample_eval)

lemma sample_plain_message:
  "isMentioned (sample_env True)
     (sample_message (asc ''group'') (Some (sample_template None (Some (asc ''x, y'')))) vd None)
     (Some (asc ''bot'')) (Some 7)"
  "groupContent (sample_message (asc ''group'') (Some (sample_template None (Some (asc ''x, y'')))) vd None)
     = sample_template None (Some (asc ''x, y''))"
  by (simp_all add: isMentioned_def rawText_def entitiesOf_def groupContent_def sample_eval)

lemma sample_link_message:
  "isMentioned (sample_env True)
     (sample_reply (sample_template (Some (asc ''https://t.me/c/1'')) (Some (asc ''x, y''))) vd orig)
     (Some (asc ''bot'')) (Some 7)"
  "groupContent (sample_reply (sample_template (Some (asc ''https://t.me/c/1'')) (Some (asc ''x, y''))) vd orig)
     = sample_template (Some (asc ''https://t.me/c/1'')) (Some (asc ''x, y''))"
  by (simp_all add: isMentioned_def rawText_def entitiesOf_def groupContent_def sample_eval)

theorem group_incomplete_template_guidance_witness:
  "newEffects (sample_env True)
      (sample_update (sample_message (asc ''supergroup'') (Some (sample_template None None)) None None))
      (sample_processor Map.empty)
     = [GetMe, SendMessage 5 MsgGuidance (Some 42)]"
proof -
  let ?msg = "sample_message (asc ''supergroup'') (Some (sample_template None None)) None None"
  let ?p = "sample_processor Map.empty"
  let ?w = "sample_env True"
  let ?r = "\<lparr>pt_source_link = None, pt_channel = None, pt_title = Some (asc ''T''),
            pt_description = Some (asc ''D''), pt_tags = None\<rparr>"
  have h1: "message (sample_update ?msg) = Some ?msg" by (simp add: sample_message_fields)
  have h2: "chat_type (chat ?msg) = asc ''group'' \<or> chat_type (chat ?msg) = asc ''supergroup''"
    by (simp add: sample_message_fields)
  have h3: "isMentioned ?w ?msg (botUsername (ensureBotIdentity ?w ?p)) (botId (ensureBotIdentity ?w ?p))"
    unfolding sample_identity by (rule sample_notags_message)
  have h4: "parseGroupTemplate ?w (groupContent ?msg) (botUsername (ensureBotIdentity ?w ?p)) = Some ?r"
    unfolding sample_identity sample_notags_message by (rule parse_sample_notags)
  have h5: "\<not> truthy (pt_title ?r) \<or> \<not> truthy (pt_description ?r) \<or> pt_tags ?r = None \<or> pt_tags ?r = Some []"
    by simp
  from group_incomplete_template_guidance [OF h1 h2 h3 h4 h5]
  show ?thesis unfolding sample_identity sample_message_fields by simp
qed

theorem group_video_precedence_witness:
  "referenceAsSpecified (Some (sample_document_message (asc ''replied-doc'') (asc ''video/mp4'')))
     = Some (asc ''replied-doc'')
   \<and> referenceAsSpecified (Some (sample_reply
          (sample_template (Some (asc ''https://t.me/c/1'')) (Some (asc ''x, y'')))
          (Some \<lparr>vid_file_id = asc ''current''\<rparr>)
          (sample_document_message (asc ''replied-doc'') (asc ''video/mp4''))))
     = Some (asc ''current'')
   \<and> set (fileIdsUsed (newEffects (sample_env True)
      (sample_update (sample_reply (sample_template (Some (asc ''https://t.me/c/1'')) (Some (asc ''x, y'')))
          (Some \<lparr>vid_file_id = asc ''current''\<rparr>)
          (sample_document_message (asc ''replied-doc'') (asc ''video/mp4''))))
      (sample_processor Map.empty))) = {asc ''replied-doc''}"
proof -
  let ?orig = "sample_document_message (asc ''replied-doc'') (asc ''video/mp4'')"
  let ?msg = "sample_reply (sample_template (Some (asc ''https://t.me/c/1'')) (Some (asc ''x, y'')))
          (Some \<lparr>vid_file_id = asc ''current''\<rparr>) ?orig"
  let ?p = "sample_processor Map.empty"
  let ?w = "sample_env True"
  let ?r = "\<lparr>pt_source_link = Some (asc ''https://t.me/c/1''), pt_channel = None, pt_title = Some (asc ''T''),
            pt_description = Some (asc ''D''), pt_tags = Some [asc ''x'', asc ''y'']\<rparr>"
  have h1: "message (sample_update ?msg) = Some ?msg" by (simp add: sample_message_fields)
  have h2: "chat_type (chat ?msg) = asc ''group'' \<or> chat_type (chat ?msg) = asc ''supergroup''"
    by (simp add: sample_message_fields)
  have h3: "isMentioned ?w ?msg (botUsername (ensureBotIdentity ?w ?p)) (botId (ensureBotIdentity ?w ?p))"
    unfolding sample_identity by (rule sample_link_message)
  have h4: "parseGroupTemplate ?w (groupContent ?msg) (botUsername (ensureBotIdentity ?w ?p)) = Some ?r"
    unfolding sample_identity sample_link_message by (rule parse_sample_link)
  have h5: "truthy (pt_title ?r)" "truthy (pt_description ?r)" "pt_tags ?r = Some [asc ''x'', asc ''y'']"
     "[asc ''x'', asc ''y''] \<noteq> []"
    by (simp_all add: truthy_def asc_def)
  have h6: "truthy (pt_source_link ?r)"
    by (simp add: truthy_def asc_def)
  have h7: "referenceAsSpecified (Some ?orig) = Some (asc ''replied-doc'')"
    by (simp add: referenceAsSpecified_def sample_document_message_def asc_def)
  have h8: "reply_to_message ?msg = Some ?orig" by (simp add: sample_reply_def)
  have h9: "referenceAsSpecified (Some ?msg) = Some (asc ''current'')"
    by (simp add: referenceAsSpecified_def sample_reply_def asc_def)
  have h10: "truthy (pt_source_link ?r) \<and> referenceAsSpecified (reply_to_message ?msg) = Some (asc ''replied-doc'')"
    unfolding h8 using h6 h7 by simp
  from group_video_precedence [OF h1 h2 h3 h4 h5, THEN conjunct1] h10
  have "GetFile (asc ''replied-doc'') \<in> set (newEffects ?w (sample_update ?msg) ?p)
      \<and> set (fileIdsUsed (newEffects ?w (sample_update ?msg) ?p)) = {asc ''replied-doc''}"
    by (rule mp)
  then have "set (fileIdsUsed (newEffects ?w (sample_update ?msg) ?p)) = {asc ''replied-doc''}"
    by (rule conjunct2)
  with h7 h9 show ?thesis by simp
qed

theorem group_empty_file_id_guard_witness:
  "resolveVideoFileId
      \<lparr>pt_source_link = None, pt_channel = None, pt_title = Some (asc ''T''),
        pt_description = Some (asc ''D''), pt_tags = Some [asc ''x'', asc ''y'']\<rparr>
      (sample_message (asc ''group'') (Some (sample_template None (Some (asc ''x, y''))))
          (Some \<lparr>vid_file_id = asc ''vid-9''\<rparr>) None)
     = Some (asc ''vid-9'')
   \<and> SendMessage 5 MsgEmptyFileId (Some 42) \<notin> set (newEffects (sample_env True)
      (sample_update (sample_message (asc ''group'') (Some (sample_template None (Some (asc ''x, y''))))
          (Some \<lparr>vid_file_id = asc ''vid-9''\<rparr>) None))
      (sample_processor Map.empty))"
proof -
  let ?msg = "sample_message (asc ''group'') (Some (sample_template None (Some (asc ''x, y''))))
          (Some \<lparr>vid_file_id = asc ''vid-9''\<rparr>) None"
  let ?p = "sample_processor Map.empty"
  let ?w = "sample_env True"
  let ?r = "\<lparr>pt_source_link = None, pt_channel = None, pt_title = Some (asc ''T''),
            pt_description = Some (asc ''D''), pt_tags = Some [asc ''x'', asc ''y'']\<rparr>"
  have h1: "message (sample_update ?msg) = Some ?msg" by (simp add: sample_message_fields)
  have h2: "chat_type (chat ?msg) = asc ''group'' \<or> chat_type (chat ?msg) = asc ''supergroup''"
    by (simp add: sample_message_fields)
  have h3: "isMentioned ?w ?msg (botUsername (ensureBotIdentity ?w ?p)) (botId (ensureBotIdentity ?w ?p))"
    unfolding sample_identity by (rule sample_plain_message)
  have h4: "parseGroupTemplate ?w (groupContent ?msg) (botUsername (ensureBotIdentity ?w ?p)) = Some ?r"
    unfolding sample_identity sample_plain_message by (rule parse_sample_plain)
  have h5: "truthy (pt_title ?r)" "truthy (pt_description ?r)" "pt_tags ?r = Some [asc ''x'', asc ''y'']"
     "[asc ''x'', asc ''y''] \<noteq> []"
    by (simp_all add: truthy_def asc_def)
  have h6: "resolveVideoFileId ?r ?msg = Some (asc ''vid-9'')"
    by (simp add: resolveVideoFileId_def videoIdOf_def sample_message_def js_or_def truthy_def asc_def)
  have h7: "trim (orEmpty (Some (asc ''vid-9''))) \<noteq> []"
    by (simp add: orEmpty_def trim_def isSpace_def asc_def)
  note g = group_empty_file_id_guard [OF h1 h2 h3 h4 h5, unfolded h6 sample_message_fields]
  from g [THEN conjunct2] h7 have b: "SendMessage 5 MsgEmptyFileId (Some 42) \<notin> set (newEffects ?w (sample_update ?msg) ?p)"
    by simp
  from h6 b show ?thesis by (rule conjI)
qed

text \<open>
  C9, as stated: the internal-error branch is unreachable. A group message with a
  complete template whose video's \<open>file_id\<close> is one space, in surroundings where
  \<open>getFile\<close> accepts it, reaches the branch: the reference is not empty, and white space
  only.
\<close>

theorem whitespace_file_id_reaches_guard:
  "newEffects (sample_env True)
      (sample_update (sample_message (asc ''group'') (Some (sample_template None (Some (asc ''x, y''))))
          (Some \<lparr>vid_file_id = [0x20]\<rparr>) None))
      (sample_processor Map.empty)
     = [GetMe, SendChatAction 5 (asc ''typing''), GetFile [0x20],
        SendMessage 5 MsgEmptyFileId (Some 42)]"
proof -
  let ?msg = "sample_message (asc ''group'') (Some (sample_template None (Some (asc ''x, y''))))
          (Some \<lparr>vid_file_id = [0x20]\<rparr>) None"
  let ?p = "sample_processor Map.empty"
  let ?w = "sample_env True"
  let ?r = "\<lparr>pt_source_link = None, pt_channel = None, pt_title = Some (asc ''T''),
            pt_description = Some (asc ''D''), pt_tags = Some [asc ''x'', asc ''y'']\<rparr>"
  have h1: "message (sample_update ?msg) = Some ?msg" by (simp add: sample_message_fields)
  have h2: "chat_type (chat ?msg) = asc ''group'' \<or> chat_type (chat ?msg) = asc ''supergroup''"
    by (simp add: sample_message_fields)
  have h3: "isMentioned ?w ?msg (botUsername (ensureBotIdentity ?w ?p)) (botId (ensureBotIdentity ?w ?p))"
    unfolding sample_identity by (rule sample_plain_message)
  have h4: "parseGroupTemplate ?w (groupContent ?msg) (botUsername (ensureBotIdentity ?w ?p)) = Some ?r"
    unfolding sample_identity sample_plain_message by (rule parse_sample_plain)
  have h5: "templateComplete (Some ?r)" by (simp add: templateComplete_def truthy_def asc_def)
  have h6: "resolveVideoFileId ?r ?msg = Some [0x20]"
    by (simp add: resolveVideoFileId_def videoIdOf_def sample_message_def js_or_def truthy_def)
  have h7: "fc_ok (getFile ?w [0x20])" by (simp add: sample_env_def)
  have h8: "truthy (Some [0x20::16 word])" "orEmpty (Some [0x20::16 word]) = [0x20]" "trim [0x20] = []"
    by (simp_all add: truthy_def orEmpty_def trim_def isSpace_def)
  show ?thesis
    unfolding newEffects_def handleUpdate_group_complete [OF h1 h2 h3 h4 h5] trace_dispatchGroup
      h6 h8 sample_message_fields sample_identity ensureBotIdentity_simps
    using h7 by (simp add: sample_processor_def truthy_def)
qed

subsection \<open>A mention of another handle\<close>

lemma parse_other_mention:
  "parseGroupTemplate (sample_env True) (asc ''@botx hi'') (Some (asc ''bot'')) = None"
  by (simp add: parser_eval sample_eval)

text \<open>
  C3. The substring test is a fallback for a message without entity metadata. The group
  message \<open>@botx hi\<close> carries the mention entity of \<open>@botx\<close>, which covers \<open>@botx\<close> and
  not the handle of the bot \<open>bot\<close>, and no other entity: by the rule it is no mention of
  the bot. The processor runs the substring test all the same, takes the message for a
  mention, and answers it with the guidance template; so it does when the text is the
  caption of a media message. (The text field is read before the caption.)
\<close>

theorem fallback_with_entities_present:
  "rawText sample_other_mention = asc ''@botx hi''
   \<and> entitiesOf sample_other_mention
       = [\<lparr>ent_offset = 0, ent_length = 5, ent_type = asc ''mention'', ent_user = None\<rparr>]
   \<and> substring (asc ''@botx hi'') 0 (0 + 5) = asc ''@botx''
   \<and> isMentioned (sample_env True) sample_other_mention (Some (asc ''bot'')) (Some 7)
   \<and> \<not> mentionedAsSpecified (sample_env True) sample_other_mention (asc ''bot'') 7
   \<and> newEffects (sample_env True) (sample_update sample_other_mention) (sample_processor Map.empty)
       = [GetMe, SendMessage 5 MsgGuidance (Some 44)]
   \<and> rawText sample_other_mention_caption = asc ''@botx hi''
   \<and> entitiesOf sample_other_mention_caption
       = [\<lparr>ent_offset = 0, ent_length = 5, ent_type = asc ''mention'', ent_user = None\<rparr>]
   \<and> isMentioned (sample_env True) sample_other_mention_caption (Some (asc ''bot'')) (Some 7)
   \<and> \<not> mentionedAsSpecified (sample_env True) sample_other_mention_caption (asc ''bot'') 7
   \<and> rawText (sample_message (asc ''group'') (Some (asc ''text'')) None (Some (asc ''caption'')))
       = asc ''text''"
proof -
  let ?e = "\<lparr>ent_offset = 0, ent_length = 5, ent_type = asc ''mention'', ent_user = None\<rparr>"
  have a: "rawText sample_other_mention = asc ''@botx hi''"
    "rawText sample_other_mention_caption = asc ''@botx hi''"
    "rawText (sample_message (asc ''group'') (Some (asc ''text'')) None (Some (asc ''caption'')))
       = asc ''text''"
    by (simp_all add: rawText_def sample_other_mention_def sample_other_mention_caption_def
        sample_message_def js_or_def truthy_def orEmpty_def asc_def)
  have b: "entitiesOf sample_other_mention = [?e]" "entitiesOf sample_other_mention_caption = [?e]"
    by (simp_all add: entitiesOf_def sample_other_mention_def sample_other_mention_caption_def)
  have c: "substring (asc ''@botx hi'') 0 (0 + 5) = asc ''@botx''"
    by (simp add: substring_def asc_def)
  have n: "entities sample_other_mention \<noteq> None" "caption_entities sample_other_mention_caption \<noteq> None"
    by (simp_all add: sample_other_mention_def sample_other_mention_caption_def)
  have l: "toLowerCase (sample_env True) (asc ''@botx'') \<noteq> toLowerCase (sample_env True) (0x40 # asc ''bot'')"
    "js_includes (toLowerCase (sample_env True) (asc ''@botx hi''))
        (toLowerCase (sample_env True) (0x40 # asc ''bot''))"
    "asc ''@botx hi'' \<noteq> []" "asc ''mention'' \<noteq> asc ''text_mention''"
    by (simp_all add: sample_env_def asc_def lowerUnit_def)
  have t: "truthy (Some (asc ''bot''))" "truthyNum (Some 7)" "orEmpty (Some (asc ''bot'')) = asc ''bot''"
    by (simp_all add: truthy_def truthyNum_def orEmpty_def asc_def)
  have d: "isMentioned (sample_env True) sample_other_mention (Some (asc ''bot'')) (Some 7)"
    "isMentioned (sample_env True) sample_other_mention_caption (Some (asc ''bot'')) (Some 7)"
    unfolding isMentioned_def Let_def a b using c l t by simp_all
  have e: "\<not> mentionedAsSpecified (sample_env True) sample_other_mention (asc ''bot'') 7"
    "\<not> mentionedAsSpecified (sample_env True) sample_other_mention_caption (asc ''bot'') 7"
    unfolding mentionedAsSpecified_def a b using c l n by simp_all
  have f: "message (sample_update sample_other_mention) = Some sample_other_mention"
    "chat_type (chat sample_other_mention) = asc ''group''"
    "chat_id (chat sample_other_mention) = 5" "message_id sample_other_mention = 44"
    "trim (orEmpty (text_of sample_other_mention)) = asc ''@botx hi''"
    by (simp_all add: sample_update_def sample_other_mention_def orEmpty_def trim_def isSpace_def asc_def)
  have g: "handleUpdate (sample_env True) (sample_update sample_other_mention) (sample_processor Map.empty)
      = sendMessage 5 MsgGuidance (Some 44)
          (ensureBotIdentity (sample_env True) (sample_processor Map.empty))"
    using d(1) l(3) parse_other_mention
    by (simp add: handleUpdate_def handleGroup_def Let_def f sample_identity)
  have h: "newEffects (sample_env True) (sample_update sample_other_mention) (sample_processor Map.empty)
       = [GetMe, SendMessage 5 MsgGuidance (Some 44)]"
    unfolding newEffects_def g by (simp add: sample_identity)
  from a b c d e h show ?thesis by simp
qed

section \<open>Properties of the wizard\<close>

lemma handleUpdate_private:
  assumes "message upd = Some msg"
    and "chat_type (chat msg) \<noteq> asc ''group''" and "chat_type (chat msg) \<noteq> asc ''supergroup''"
  shows "handleUpdate w upd p = handlePrivate w msg (chat_id (chat msg)) (privateText msg) p"
  using assms by (simp add: handleUpdate_def Let_def privateText_def)

lemma handlePrivate_step:
  assumes "txt \<noteq> asc ''/start''" and "\<not> isCancel w txt" and "repo p cid = Some st"
  shows "handlePrivate w msg cid txt p = handleStep w msg cid txt st (emit (RepoGet cid) p)"
  using assms by (simp add: handlePrivate_def Let_def)

lemma confirmStep_dispatch:
  assumes "isConfirm w txt"
    and "truthy (video_file_id st)" and "truthy (title st)" and "truthy (description st)"
    and "tags st \<noteq> None"
  shows "trace (confirmStep w msg cid txt st q) = trace q @
           [SendChatAction cid (asc ''typing''), SendVideo (wizardPayload msg cid st)] @
           (if resp_ok (sendVideo w (wizardPayload msg cid st))
            then [SendMessage cid MsgWizardSuccess None, RepoDelete cid]
            else [SendMessage cid (MsgN8nError (resp_status (sendVideo w (wizardPayload msg cid st)))
                    (take 400 (orEmpty (resp_body (sendVideo w (wizardPayload msg cid st)))))) None])"
    and "repo (confirmStep w msg cid txt st q) =
           (if resp_ok (sendVideo w (wizardPayload msg cid st)) then (repo q)(cid := None) else repo q)"
  using assms by (auto simp: confirmStep_def Let_def)

lemma handleUpdate_confirm:
  assumes "message upd = Some msg"
    and "chat_type (chat msg) \<noteq> asc ''group''" and "chat_type (chat msg) \<noteq> asc ''supergroup''"
    and "isConfirm w (privateText msg)"
    and "privateText msg \<noteq> asc ''/start''" and "\<not> isCancel w (privateText msg)"
    and "repo p (chat_id (chat msg)) = Some st" and "step st = awaiting_confirm"
  shows "handleUpdate w upd p
     = confirmStep w msg (chat_id (chat msg)) (privateText msg) st (emit (RepoGet (chat_id (chat msg))) p)"
  unfolding handleUpdate_private [OF assms(1-3)] handlePrivate_step [OF assms(5-7)]
  using assms(8) by (simp add: handleStep_def)

text \<open>
  C5. A private message with a confirm keyword, the state at \<open>awaiting_confirm\<close> with the
  video reference, the title, the description and the tags present. When the dispatch
  succeeds, the user is told so and the state is deleted. When it does not, the user is
  sent the status and the body cut to 400 units, the store is as before, and a further
  confirm message of the conversation dispatches the same stored fields again.
\<close>

theorem confirm_dispatch_outcomes:
  assumes "message upd = Some msg"
    and "chat_type (chat msg) \<noteq> asc ''group''" and "chat_type (chat msg) \<noteq> asc ''supergroup''"
    and "isConfirm w (privateText msg)"
    and "privateText msg \<noteq> asc ''/start''" and "\<not> isCancel w (privateText msg)"
    and "repo p (chat_id (chat msg)) = Some st" and "step st = awaiting_confirm"
    and "truthy (video_file_id st)" and "truthy (title st)" and "truthy (description st)"
    and "tags st \<noteq> None"
  shows "(resp_ok (sendVideo w (wizardPayload msg (chat_id (chat msg)) st)) \<longrightarrow>
            newEffects w upd p =
              [RepoGet (chat_id (chat msg)), SendChatAction (chat_id (chat msg)) (asc ''typing''),
               SendVideo (wizardPayload msg (chat_id (chat msg)) st),
               SendMessage (chat_id (chat msg)) MsgWizardSuccess None,
               RepoDelete (chat_id (chat msg))]
            \<and> repo (handleUpdate w upd p) = (repo p)(chat_id (chat msg) := None))
       \<and> (\<not> resp_ok (sendVideo w (wizardPayload msg (chat_id (chat msg)) st)) \<longrightarrow>
            newEffects w upd p =
              [RepoGet (chat_id (chat msg)), SendChatAction (chat_id (chat msg)) (asc ''typing''),
               SendVideo (wizardPayload msg (chat_id (chat msg)) st),
               SendMessage (chat_id (chat msg))
                 (MsgN8nError (resp_status (sendVideo w (wizardPayload msg (chat_id (chat msg)) st)))
                    (take 400 (orEmpty (resp_body (sendVideo w (wizardPayload msg (chat_id (chat msg)) st))))))
                 None]
            \<and> length (take 400 (orEmpty (resp_body (sendVideo w (wizardPayload msg (chat_id (chat msg)) st))))) \<le> 400
            \<and> repo (handleUpdate w upd p) = repo p
            \<and> (\<forall>w2 upd2 msg2.
                  message upd2 = Some msg2 \<and> chat_id (chat msg2) = chat_id (chat msg)
                  \<and> chat_type (chat msg2) \<noteq> asc ''group'' \<and> chat_type (chat msg2) \<noteq> asc ''supergroup''
                  \<and> isConfirm w2 (privateText msg2) \<and> privateText msg2 \<noteq> asc ''/start''
                  \<and> \<not> isCancel w2 (privateText msg2)
                  \<longrightarrow> SendVideo (wizardPayload msg2 (chat_id (chat msg)) st)
                        \<in> set (newEffects w2 upd2 (handleUpdate w upd p))))"
proof (intro conjI impI allI)
  assume ok: "resp_ok (sendVideo w (wizardPayload msg (chat_id (chat msg)) st))"
  show "newEffects w upd p =
              [RepoGet (chat_id (chat msg)), SendChatAction (chat_id (chat msg)) (asc ''typing''),
               SendVideo (wizardPayload msg (chat_id (chat msg)) st),
               SendMessage (chat_id (chat msg)) MsgWizardSuccess None,
               RepoDelete (chat_id (chat msg))]"
    unfolding newEffects_def handleUpdate_confirm [OF assms(1-8)]
      confirmStep_dispatch [OF assms(4) assms(9-12)]
    using ok by simp
  show "repo (handleUpdate w upd p) = (repo p)(chat_id (chat msg) := None)"
    unfolding handleUpdate_confirm [OF assms(1-8)] confirmStep_dispatch [OF assms(4) assms(9-12)]
    using ok by simp
next
  assume nok: "\<not> resp_ok (sendVideo w (wizardPayload msg (chat_id (chat msg)) st))"
  show "newEffects w upd p =
              [RepoGet (chat_id (chat msg)), SendChatAction (chat_id (chat msg)) (asc ''typing''),
               SendVideo (wizardPayload msg (chat_id (chat msg)) st),
               SendMessage (chat_id (chat msg))
                 (MsgN8nError (resp_status (sendVideo w (wizardPayload msg (chat_id (chat msg)) st)))
                    (take 400 (orEmpty (resp_body (sendVideo w (wizardPayload msg (chat_id (chat msg)) st))))))
                 None]"
    unfolding newEffects_def handleUpdate_confirm [OF assms(1-8)]
      confirmStep_dispatch [OF assms(4) assms(9-12)]
    using nok by simp
  show "length (take 400 (orEmpty (resp_body (sendVideo w (wizardPayload msg (chat_id (chat msg)) st))))) \<le> 400"
    by simp
  show same: "repo (handleUpdate w upd p) = repo p"
    unfolding handleUpdate_confirm [OF assms(1-8)] confirmStep_dispatch [OF assms(4) assms(9-12)]
    using nok by simp
  fix w2 and upd2 :: TgUpdate and msg2
  assume a: "message upd2 = Some msg2 \<and> chat_id (chat msg2) = chat_id (chat msg)
                  \<and> chat_type (chat msg2) \<noteq> asc ''group'' \<and> chat_type (chat msg2) \<noteq> asc ''supergroup''
                  \<and> isConfirm w2 (privateText msg2) \<and> privateText msg2 \<noteq> asc ''/start''
                  \<and> \<not> isCancel w2 (privateText msg2)"
  let ?q = "handleUpdate w upd p"
  have st2: "repo ?q (chat_id (chat msg2)) = Some st" using same assms(7) a by simp
  have "handleUpdate w2 upd2 ?q
     = confirmStep w2 msg2 (chat_id (chat msg2)) (privateText msg2) st (emit (RepoGet (chat_id (chat msg2))) ?q)"
    using a st2 assms(8) by (intro handleUpdate_confirm) simp_all
  then show "SendVideo (wizardPayload msg2 (chat_id (chat msg)) st) \<in> set (newEffects w2 upd2 ?q)"
    unfolding newEffects_def using a confirmStep_dispatch(1) [OF _ assms(9-12), of w2 "privateText msg2"]
    by simp
qed

lemma private_not_group: "asc ''private'' \<noteq> asc ''group''" "asc ''private'' \<noteq> asc ''supergroup''"
  by (simp_all add: asc_def)

lemma sample_keywords:
  "privateText (sample_message ty (Some (asc ''Confirm'')) vd cap) = asc ''Confirm''"
  "isConfirm (sample_env ok) (asc ''Confirm'')"
  "asc ''Confirm'' \<noteq> asc ''/start''"
  "\<not> isCancel (sample_env ok) (asc ''Confirm'')"
  by (simp_all add: privateText_def sample_message_def orEmpty_def trim_def isSpace_def asc_def
      isConfirm_def isCancel_def sample_env_def lowerUnit_def)

theorem confirm_dispatch_outcomes_witness:
  "newEffects (sample_env False)
     (sample_update (sample_message (asc ''private'') (Some (asc ''Confirm'')) None None))
     (sample_processor [5 \<mapsto> sample_state awaiting_confirm])
   = [RepoGet 5, SendChatAction 5 (asc ''typing''),
      SendVideo (wizardPayload (sample_message (asc ''private'') (Some (asc ''Confirm'')) None None) 5
                   (sample_state awaiting_confirm)),
      SendMessage 5 (MsgN8nError 500 (asc ''upstream error'')) None]
   \<and> repo (handleUpdate (sample_env False)
        (sample_update (sample_message (asc ''private'') (Some (asc ''Confirm'')) None None))
        (sample_processor [5 \<mapsto> sample_state awaiting_confirm]))
     = [5 \<mapsto> sample_state awaiting_confirm]"
proof -
  let ?msg = "sample_message (asc ''private'') (Some (asc ''Confirm'')) None None"
  let ?p = "sample_processor [5 \<mapsto> sample_state awaiting_confirm]"
  let ?w = "sample_env False"
  let ?st = "sample_state awaiting_confirm"
  have h1: "message (sample_update ?msg) = Some ?msg" by (simp add: sample_message_fields)
  have h2: "chat_type (chat ?msg) \<noteq> asc ''group''" "chat_type (chat ?msg) \<noteq> asc ''supergroup''"
    by (simp_all add: sample_message_fields private_not_group)
  have h3: "isConfirm ?w (privateText ?msg)" "privateText ?msg \<noteq> asc ''/start''"
    "\<not> isCancel ?w (privateText ?msg)"
    unfolding sample_keywords by (rule sample_keywords)+
  have h4: "repo ?p (chat_id (chat ?msg)) = Some ?st" "step ?st = awaiting_confirm"
    by (simp_all add: sample_message_fields sample_processor_def sample_state_def)
  have h5: "truthy (video_file_id ?st)" "truthy (title ?st)" "truthy (description ?st)"
    "tags ?st \<noteq> None"
    by (simp_all add: sample_state_def truthy_def asc_def)
  have h6: "\<not> resp_ok (sendVideo ?w (wizardPayload ?msg 5 ?st))"
    "resp_status (sendVideo ?w (wizardPayload ?msg 5 ?st)) = 500"
    "take 400 (orEmpty (resp_body (sendVideo ?w (wizardPayload ?msg 5 ?st)))) = asc ''upstream error''"
    "repo ?p = [5 \<mapsto> sample_state awaiting_confirm]"
    by (simp_all add: sample_env_def orEmpty_def asc_def sample_processor_def)
  note c = confirm_dispatch_outcomes [OF h1 h2 h3 h4 h5, unfolded sample_message_fields,
      THEN conjunct2, rule_format, OF h6(1)]
  from c [THEN conjunct1] c [THEN conjunct2, THEN conjunct2, THEN conjunct1]
  show ?thesis unfolding h6 by (rule conjI)
qed


subsection \<open>Rejected inputs\<close>

text \<open>
  C7. A private message that is not one of the commands handled before the steps
  (\<open>/start\<close>, the cancel keywords), with a stored state, that fails the validation of the
  state's step: no video at \<open>awaiting_video\<close>; empty text at \<open>awaiting_title\<close>,
  \<open>awaiting_description\<close> or \<open>awaiting_tags\<close>; no tag parsed at \<open>awaiting_tags\<close>; no
  confirm keyword at \<open>awaiting_confirm\<close>. The store after the call is the store before,
  no save and no delete is issued, and the only calls are the read of the state and the
  reply of the step.
\<close>

theorem rejected_input_leaves_state:
  assumes "message upd = Some msg"
    and "chat_type (chat msg) \<noteq> asc ''group''" and "chat_type (chat msg) \<noteq> asc ''supergroup''"
    and "privateText msg \<noteq> asc ''/start''" and "\<not> isCancel w (privateText msg)"
    and "repo p (chat_id (chat msg)) = Some st"
    and "(step st = awaiting_video \<and> \<not> truthy (map_option vid_file_id (video msg)))
         \<or> (step st = awaiting_title \<and> privateText msg = [])
         \<or> (step st = awaiting_description \<and> privateText msg = [])
         \<or> (step st = awaiting_tags \<and> privateText msg = [])
         \<or> (step st = awaiting_tags \<and> parseTags (privateText msg) = [])
         \<or> (step st = awaiting_confirm \<and> \<not> isConfirm w (privateText msg))"
  shows "repo (handleUpdate w upd p) = repo p
       \<and> \<not> list_ex isMutation (newEffects w upd p)
       \<and> newEffects w upd p =
           [RepoGet (chat_id (chat msg)),
            SendMessage (chat_id (chat msg))
              (case step st of
                 awaiting_video \<Rightarrow> MsgVideoRequired
               | awaiting_title \<Rightarrow> MsgTitleInvalid
               | awaiting_description \<Rightarrow> MsgDescriptionInvalid
               | awaiting_tags \<Rightarrow> if privateText msg = [] then MsgTagsInvalid else MsgNoTags
               | awaiting_confirm \<Rightarrow> MsgConfirmReminder
               | other_step \<Rightarrow> MsgUnknownState) None]"
  unfolding newEffects_def handleUpdate_private [OF assms(1-3)] handlePrivate_step [OF assms(4-6)]
  using assms(5,7) by (auto simp: handleStep_def confirmStep_def Let_def)

lemma parseTags_comma: "parseTags [0x2C] = []"
  by (simp add: parseTags_def js_split_def strSeparator_def trim_def)

theorem rejected_input_leaves_state_witness:
  "repo (handleUpdate (sample_env True)
        (sample_update (sample_message (asc ''private'') (Some [0x2C]) None None))
        (sample_processor [5 \<mapsto> sample_state awaiting_tags]))
     = [5 \<mapsto> sample_state awaiting_tags]
   \<and> newEffects (sample_env True)
        (sample_update (sample_message (asc ''private'') (Some [0x2C]) None None))
        (sample_processor [5 \<mapsto> sample_state awaiting_tags])
     = [RepoGet 5, SendMessage 5 MsgNoTags None]"
proof -
  let ?msg = "sample_message (asc ''private'') (Some [0x2C]) None None"
  let ?p = "sample_processor [5 \<mapsto> sample_state awaiting_tags]"
  let ?w = "sample_env True"
  let ?st = "sample_state awaiting_tags"
  have t: "privateText ?msg = [0x2C]"
    by (simp add: privateText_def sample_message_def orEmpty_def trim_def isSpace_def)
  have h1: "message (sample_update ?msg) = Some ?msg" by (simp add: sample_message_fields)
  have h2: "chat_type (chat ?msg) \<noteq> asc ''group''" "chat_type (chat ?msg) \<noteq> asc ''supergroup''"
    by (simp_all add: sample_message_fields private_not_group)
  have h3: "privateText ?msg \<noteq> asc ''/start''" "\<not> isCancel ?w (privateText ?msg)"
    unfolding t by (simp_all add: asc_def isCancel_def sample_env_def lowerUnit_def)
  have h4: "repo ?p (chat_id (chat ?msg)) = Some ?st"
    by (simp add: sample_message_fields sample_processor_def)
  have s: "step ?st = awaiting_tags" by (simp add: sample_state_def)
  have h5: "(step ?st = awaiting_video \<and> \<not> truthy (map_option vid_file_id (video ?msg)))
         \<or> (step ?st = awaiting_title \<and> privateText ?msg = [])
         \<or> (step ?st = awaiting_description \<and> privateText ?msg = [])
         \<or> (step ?st = awaiting_tags \<and> privateText ?msg = [])
         \<or> (step ?st = awaiting_tags \<and> parseTags (privateText ?msg) = [])
         \<or> (step ?st = awaiting_confirm \<and> \<not> isConfirm ?w (privateText ?msg))"
    unfolding t s parseTags_comma by simp
  have r: "repo ?p = [5 \<mapsto> sample_state awaiting_tags]" by (simp add: sample_processor_def)
  note c = rejected_input_leaves_state [OF h1 h2 h3 h4 h5, unfolded sample_message_fields s t r]
  from c [THEN conjunct1] c [THEN conjunct2, THEN conjunct2]
  show ?thesis by simp
qed


subsection \<open>The step only advances\<close>







subsection \<open>The caption in a private conversation\<close>

text \<open>
  C10. In a private conversation the result of \<open>handleUpdate\<close> does not depend on the
  caption. When the text is empty, whatever the caption, no command and no confirmation
  fires (no welcome, no cancellation, no dispatch and none of its replies), and at
  \<open>awaiting_title\<close>, \<open>awaiting_description\<close> and \<open>awaiting_tags\<close> the input is rejected
  with the store as before. The runtime's \<open>toLowerCase\<close> maps the empty string to
  itself.
\<close>

theorem private_caption_never_read:
  assumes "chat_type ch \<noteq> asc ''group''" and "chat_type ch \<noteq> asc ''supergroup''"
  shows "handleUpdate w \<lparr>update_id = u, message = Some (TgMessage mid fr ch dt tx vd doc ents cap capents rep)\<rparr> p
           = handleUpdate w \<lparr>update_id = u, message = Some (TgMessage mid fr ch dt tx vd doc ents None capents rep)\<rparr> p
       \<and> (toLowerCase w [] = [] \<and> trim (orEmpty tx) = [] \<longrightarrow>
            \<not> list_ex isCommandReply
                (newEffects w \<lparr>update_id = u, message = Some (TgMessage mid fr ch dt tx vd doc ents cap capents rep)\<rparr> p)
            \<and> \<not> list_ex isDispatch
                (newEffects w \<lparr>update_id = u, message = Some (TgMessage mid fr ch dt tx vd doc ents cap capents rep)\<rparr> p)
            \<and> (\<forall>st. repo p (chat_id ch) = Some st
                     \<and> (step st = awaiting_title \<or> step st = awaiting_description \<or> step st = awaiting_tags)
                  \<longrightarrow> repo (handleUpdate w \<lparr>update_id = u, message = Some (TgMessage mid fr ch dt tx vd doc ents cap capents rep)\<rparr> p)
                        = repo p
                      \<and> newEffects w \<lparr>update_id = u, message = Some (TgMessage mid fr ch dt tx vd doc ents cap capents rep)\<rparr> p
                        = [RepoGet (chat_id ch),
                           SendMessage (chat_id ch)
                             (if step st = awaiting_title then MsgTitleInvalid
                              else if step st = awaiting_description then MsgDescriptionInvalid
                              else MsgTagsInvalid) None]))"
proof -
  let ?m = "TgMessage mid fr ch dt tx vd doc ents cap capents rep"
  let ?n = "TgMessage mid fr ch dt tx vd doc ents None capents rep"
  let ?u = "\<lparr>update_id = u, message = Some ?m\<rparr>"
  have hp: "handleUpdate w ?u p = handlePrivate w ?m (chat_id ch) (trim (orEmpty tx)) p"
    using assms by (simp add: handleUpdate_def Let_def)
  have hp0: "handleUpdate w \<lparr>update_id = u, message = Some ?n\<rparr> p
      = handlePrivate w ?n (chat_id ch) (trim (orEmpty tx)) p"
    using assms by (simp add: handleUpdate_def Let_def)
  have steps: "handleStep w ?m k t st q = handleStep w ?n k t st q" for k t st q
    by (cases "step st") (simp_all add: handleStep_def confirmStep_def wizardPayload_def)
  have c1: "handleUpdate w ?u p = handleUpdate w \<lparr>update_id = u, message = Some ?n\<rparr> p"
    unfolding hp hp0 by (cases "repo p (chat_id ch)") (simp_all add: handlePrivate_def Let_def steps)
  have c2: "\<not> list_ex isCommandReply (newEffects w ?u p) \<and> \<not> list_ex isDispatch (newEffects w ?u p)
      \<and> (\<forall>st. repo p (chat_id ch) = Some st
             \<and> (step st = awaiting_title \<or> step st = awaiting_description \<or> step st = awaiting_tags)
            \<longrightarrow> repo (handleUpdate w ?u p) = repo p
                \<and> newEffects w ?u p
                    = [RepoGet (chat_id ch),
                       SendMessage (chat_id ch)
                         (if step st = awaiting_title then MsgTitleInvalid
                          else if step st = awaiting_description then MsgDescriptionInvalid
                          else MsgTagsInvalid) None])"
    if e: "toLowerCase w [] = [] \<and> trim (orEmpty tx) = []"
  proof -
    from e have k: "\<not> isCancel w []" "\<not> isConfirm w []" "[] \<noteq> asc ''/start''"
      by (simp_all add: isCancel_def isConfirm_def asc_def)
    have hq: "handleUpdate w ?u p = handlePrivate w ?m (chat_id ch) [] p"
      using hp e by simp
    have tr: "trace (handlePrivate w ?m (chat_id ch) [] p) = trace p @
        RepoGet (chat_id ch) #
        (case repo p (chat_id ch) of
           None \<Rightarrow> (case vd of
                      Some v \<Rightarrow> [RepoSave \<lparr>chatId = chat_id ch, step = awaiting_title,
                                   video_file_id = Some (vid_file_id v), title = None,
                                   description = None, tags = None, updatedAt = now w\<rparr>,
                                 SendMessage (chat_id ch) MsgAskTitle None]
                    | None \<Rightarrow> [SendMessage (chat_id ch) MsgStartFirst None])
         | Some st \<Rightarrow>
             (case step st of
                awaiting_video \<Rightarrow>
                  if truthy (map_option vid_file_id vd)
                  then [RepoSave (st\<lparr>video_file_id := map_option vid_file_id vd,
                                     step := awaiting_title, updatedAt := now w\<rparr>),
                        SendMessage (chat_id ch) MsgAskTitle None]
                  else [SendMessage (chat_id ch) MsgVideoRequired None]
              | awaiting_title \<Rightarrow> [SendMessage (chat_id ch) MsgTitleInvalid None]
              | awaiting_description \<Rightarrow> [SendMessage (chat_id ch) MsgDescriptionInvalid None]
              | awaiting_tags \<Rightarrow> [SendMessage (chat_id ch) MsgTagsInvalid None]
              | awaiting_confirm \<Rightarrow> [SendMessage (chat_id ch) MsgConfirmReminder None]
              | other_step \<Rightarrow> [RepoDelete (chat_id ch), SendMessage (chat_id ch) MsgUnknownState None]))"
      using k by (simp add: handlePrivate_def handleStep_def confirmStep_def Let_def
          split: option.splits WizardStep.splits)
    have a: "\<not> list_ex isCommandReply (newEffects w ?u p)"
      unfolding newEffects_def hq tr by (simp split: option.splits WizardStep.splits)
    have b: "\<not> list_ex isDispatch (newEffects w ?u p)"
      unfolding newEffects_def hq tr by (simp split: option.splits WizardStep.splits)
    have c: "newEffects w ?u p
        = [RepoGet (chat_id ch),
           SendMessage (chat_id ch)
             (if step st = awaiting_title then MsgTitleInvalid
              else if step st = awaiting_description then MsgDescriptionInvalid
              else MsgTagsInvalid) None]"
      if "repo p (chat_id ch) = Some st
       \<and> (step st = awaiting_title \<or> step st = awaiting_description \<or> step st = awaiting_tags)" for st
      unfolding newEffects_def hq tr using that by auto
    have d: "repo (handleUpdate w ?u p) = repo p"
      if "repo p (chat_id ch) = Some st
       \<and> (step st = awaiting_title \<or> step st = awaiting_description \<or> step st = awaiting_tags)" for st
      unfolding hq using that k by (auto simp: handlePrivate_def handleStep_def Let_def)
    from a b c d show ?thesis by blast
  qed
  from c1 c2 show ?thesis by blast
qed


theorem private_caption_never_read_witness:
  "newEffects (sample_env True)
      (sample_update (sample_message (asc ''private'') None None (Some (asc ''/cancel''))))
      (sample_processor [5 \<mapsto> sample_state awaiting_title])
     = [RepoGet 5, SendMessage 5 MsgTitleInvalid None]
   \<and> repo (handleUpdate (sample_env True)
        (sample_update (sample_message (asc ''private'') None None (Some (asc ''/cancel''))))
        (sample_processor [5 \<mapsto> sample_state awaiting_title]))
     = [5 \<mapsto> sample_state awaiting_title]"
proof -
  let ?ch = "\<lparr>chat_id = 5, chat_type = asc ''private''\<rparr>"
  let ?p = "sample_processor [5 \<mapsto> sample_state awaiting_title]"
  let ?w = "sample_env True"
  have h1: "chat_type ?ch \<noteq> asc ''group''" "chat_type ?ch \<noteq> asc ''supergroup''"
    by (simp_all add: private_not_group)
  have h2: "toLowerCase ?w [] = [] \<and> trim (orEmpty None) = []"
    by (simp add: sample_env_def orEmpty_def trim_def)
  have h3: "repo ?p (chat_id ?ch) = Some (sample_state awaiting_title)
      \<and> (step (sample_state awaiting_title) = awaiting_title
          \<or> step (sample_state awaiting_title) = awaiting_description
          \<or> step (sample_state awaiting_title) = awaiting_tags)"
    by (simp add: sample_processor_def sample_state_def)
  note c = private_caption_never_read [OF h1, where w = ?w and u = 1 and mid = 42
      and fr = "Some sample_user" and dt = 1700000000 and tx = None and vd = None and doc = None
      and ents = None and cap = "Some (asc ''/cancel'')" and capents = None and rep = None
      and p = ?p, THEN conjunct2, rule_format, OF h2]
  note d = c [THEN conjunct2, THEN conjunct2, rule_format, OF h3]
  have s: "step (sample_state awaiting_title) = awaiting_title" by (simp add: sample_state_def)
  have r: "repo ?p = [5 \<mapsto> sample_state awaiting_title]" by (simp add: sample_processor_def)
  from d show ?thesis
    unfolding sample_update_def sample_message_def s r by simp
qed

end
